theory Spec2Isabelle
  imports Main "HOL-Library.Word"
begin

unbundle bit_operations_syntax

section \<open>Command trait table (terraform\_cmd.h, story\_cmd.h)\<close>

text \<open>
  Each \<^verbatim>\<open>DEF_CMD_TRAIT(cmd, proc, flags, type)\<close> line of the two headers is one entry of the
  static trait table: the handler, the set of command flags and the command type.
\<close>

datatype Commands =
    CMD_TERRAFORM_LAND
  | CMD_LEVEL_LAND
  | CMD_CREATE_STORY_PAGE
  | CMD_CREATE_STORY_PAGE_ELEMENT
  | CMD_UPDATE_STORY_PAGE_ELEMENT
  | CMD_SET_STORY_PAGE_TITLE
  | CMD_SET_STORY_PAGE_DATE
  | CMD_SHOW_STORY_PAGE
  | CMD_REMOVE_STORY_PAGE
  | CMD_REMOVE_STORY_PAGE_ELEMENT
  | CMD_STORY_PAGE_BUTTON

datatype CommandProc =
    CmdTerraformLand
  | CmdLevelLand
  | CmdCreateStoryPage
  | CmdCreateStoryPageElement
  | CmdUpdateStoryPageElement
  | CmdSetStoryPageTitle
  | CmdSetStoryPageDate
  | CmdShowStoryPage
  | CmdRemoveStoryPage
  | CmdRemoveStoryPageElement
  | CmdStoryPageButton

datatype CommandFlags = CMD_ALL_TILES | CMD_AUTO | CMD_NO_TEST | CMD_DEITY | CMD_STR_CTRL

datatype CommandType = CMDT_LANDSCAPE_CONSTRUCTION | CMDT_OTHER_MANAGEMENT

record CommandTrait =
  trait_proc :: CommandProc
  trait_flags :: "CommandFlags set"
  trait_type :: CommandType

fun DEF_CMD_TRAIT :: "Commands \<Rightarrow> CommandTrait" where
  "DEF_CMD_TRAIT CMD_TERRAFORM_LAND =
     \<lparr>trait_proc = CmdTerraformLand, trait_flags = {CMD_ALL_TILES, CMD_AUTO},
      trait_type = CMDT_LANDSCAPE_CONSTRUCTION\<rparr>"
| "DEF_CMD_TRAIT CMD_LEVEL_LAND =
     \<lparr>trait_proc = CmdLevelLand, trait_flags = {CMD_ALL_TILES, CMD_AUTO, CMD_NO_TEST},
      trait_type = CMDT_LANDSCAPE_CONSTRUCTION\<rparr>"
| "DEF_CMD_TRAIT CMD_CREATE_STORY_PAGE =
     \<lparr>trait_proc = CmdCreateStoryPage, trait_flags = {CMD_DEITY, CMD_STR_CTRL},
      trait_type = CMDT_OTHER_MANAGEMENT\<rparr>"
| "DEF_CMD_TRAIT CMD_CREATE_STORY_PAGE_ELEMENT =
     \<lparr>trait_proc = CmdCreateStoryPageElement, trait_flags = {CMD_DEITY, CMD_STR_CTRL},
      trait_type = CMDT_OTHER_MANAGEMENT\<rparr>"
| "DEF_CMD_TRAIT CMD_UPDATE_STORY_PAGE_ELEMENT =
     \<lparr>trait_proc = CmdUpdateStoryPageElement, trait_flags = {CMD_DEITY, CMD_STR_CTRL},
      trait_type = CMDT_OTHER_MANAGEMENT\<rparr>"
| "DEF_CMD_TRAIT CMD_SET_STORY_PAGE_TITLE =
     \<lparr>trait_proc = CmdSetStoryPageTitle, trait_flags = {CMD_DEITY, CMD_STR_CTRL},
      trait_type = CMDT_OTHER_MANAGEMENT\<rparr>"
| "DEF_CMD_TRAIT CMD_SET_STORY_PAGE_DATE =
     \<lparr>trait_proc = CmdSetStoryPageDate, trait_flags = {CMD_DEITY},
      trait_type = CMDT_OTHER_MANAGEMENT\<rparr>"
| "DEF_CMD_TRAIT CMD_SHOW_STORY_PAGE =
     \<lparr>trait_proc = CmdShowStoryPage, trait_flags = {CMD_DEITY},
      trait_type = CMDT_OTHER_MANAGEMENT\<rparr>"
| "DEF_CMD_TRAIT CMD_REMOVE_STORY_PAGE =
     \<lparr>trait_proc = CmdRemoveStoryPage, trait_flags = {CMD_DEITY},
      trait_type = CMDT_OTHER_MANAGEMENT\<rparr>"
| "DEF_CMD_TRAIT CMD_REMOVE_STORY_PAGE_ELEMENT =
     \<lparr>trait_proc = CmdRemoveStoryPageElement, trait_flags = {CMD_DEITY},
      trait_type = CMDT_OTHER_MANAGEMENT\<rparr>"
| "DEF_CMD_TRAIT CMD_STORY_PAGE_BUTTON =
     \<lparr>trait_proc = CmdStoryPageButton, trait_flags = {CMD_DEITY},
      trait_type = CMDT_OTHER_MANAGEMENT\<rparr>"

text \<open>
  Modelled from the spec: the dispatcher (command.cpp) is not under src/. The spec's
  sentence "Executing runs only if Testing succeeded, unless the trait is flagged skip
  re-test" makes the separate test run depend on the trait flag alone.
\<close>

definition separate_test_run :: "Commands \<Rightarrow> bool" where
  "separate_test_run cmd = (CMD_NO_TEST \<notin> trait_flags (DEF_CMD_TRAIT cmd))"

section \<open>Cost/Result values\<close>

type_synonym TileIndex = nat
type_synonym Money = int
type_synonym TreeType = nat

datatype StringID =
    INVALID_STRING_ID
  | STR_ERROR_TREE_ALREADY_HERE
  | STR_ERROR_TREE_PLANT_LIMIT_REACHED
  | STR_ERROR_CAN_T_BUILD_ON_WATER
  | STR_ERROR_SITE_UNSUITABLE
  | STR_ERROR_TREE_WRONG_TERRAIN_FOR_TREE_TYPE
  | STR_OTHER nat

datatype ExpensesType = EXPENSES_CONSTRUCTION | EXPENSES_OTHER | INVALID_EXPENSES

text \<open>
  Modelled from the spec: the class CommandCost and the money type (command\_type.h,
  economy\_type.h) are not under src/. A Cost/Result is an expense category, a signed money
  delta and an optional failure reason; two of them combine by summing the deltas, the
  first failure winning. The component performs no clamping, so Money is an unbounded
  integer here.
\<close>

record CommandCost =
  expense_type :: ExpensesType
  cost :: Money
  message :: StringID
  success :: bool

definition CommandCost_of :: "ExpensesType \<Rightarrow> CommandCost" where
  "CommandCost_of ex = \<lparr>expense_type = ex, cost = 0, message = INVALID_STRING_ID, success = True\<rparr>"

definition return_cmd_error :: "StringID \<Rightarrow> CommandCost" where
  "return_cmd_error msg =
     \<lparr>expense_type = INVALID_EXPENSES, cost = 0, message = msg, success = False\<rparr>"

definition CMD_ERROR :: CommandCost where
  "CMD_ERROR = return_cmd_error INVALID_STRING_ID"

definition AddCostMoney :: "CommandCost \<Rightarrow> Money \<Rightarrow> CommandCost" where
  "AddCostMoney c m = c\<lparr>cost := cost c + m\<rparr>"

definition AddCost :: "CommandCost \<Rightarrow> CommandCost \<Rightarrow> CommandCost" where
  "AddCost c ret =
     (let c1 = AddCostMoney c (cost ret)
      in if success c1 \<and> \<not> success ret then c1\<lparr>message := message ret, success := False\<rparr>
         else c1)"

definition GetCost :: "CommandCost \<Rightarrow> Money" where
  "GetCost c = cost c"

definition Failed :: "CommandCost \<Rightarrow> bool" where
  "Failed c = (\<not> success c)"


section \<open>Tiles, world state and environment\<close>

datatype TileType =
    MP_CLEAR | MP_RAILWAY | MP_ROAD | MP_HOUSE | MP_TREES | MP_STATION
  | MP_WATER | MP_VOID | MP_INDUSTRY | MP_TUNNELBRIDGE | MP_OBJECT

datatype ClearGround =
  CLEAR_GRASS | CLEAR_ROUGH | CLEAR_ROCKS | CLEAR_FIELDS | CLEAR_SNOW | CLEAR_DESERT

datatype TreeGround =
    TREE_GROUND_GRASS | TREE_GROUND_ROUGH | TREE_GROUND_SNOW_DESERT
  | TREE_GROUND_SHORE | TREE_GROUND_ROUGH_SNOW

datatype TropicZone = TROPICZONE_NORMAL | TROPICZONE_DESERT | TROPICZONE_RAINFOREST

datatype LandscapeID = LT_TEMPERATE | LT_ARCTIC | LT_TROPIC | LT_TOYLAND

datatype TreePlacer = TP_NONE | TP_ORIGINAL | TP_IMPROVED | TP_PERFECT

datatype ExtraTreePlacement =
  ETP_NO_SPREAD | ETP_SPREAD_RAINFOREST | ETP_SPREAD_ALL | ETP_NO_GROWTH_NO_SPREAD

datatype DoCommandFlag = DC_EXEC | DC_AUTO | DC_NO_WATER | DC_NO_MODIFY_TOWN_RATING | DC_BANKRUPT

text \<open>
  Modelled from the spec: the tile store and its accessors (map.h, tile\_map.h,
  clear\_map.h, tree\_map.h, water\_map.h) are not under src/. A tile is the record of what
  the accessors used by tree\_cmd.cpp read: its discriminated type, and the type-specific
  sub-state; for a trees tile the species, the stem count, the growth stage, the ground
  cover and the ground density. \<open>clear_ground\<close> is what GetClearGround returns and
  \<open>raw_clear_ground\<close> what GetRawClearGround returns; the model assumes nothing on how
  the two are related.
\<close>

record Tile =
  tile_type :: TileType
  tile_z :: nat
  tile_height :: nat
  bridge_above :: bool
  coast :: bool
  slope_one_corner_raised :: bool
  tropic_zone :: TropicZone
  clear_ground :: ClearGround
  raw_clear_ground :: ClearGround
  clear_density :: nat
  tree_type :: TreeType
  tree_count :: nat
  tree_growth :: nat
  tree_ground :: TreeGround
  tree_density :: nat

text \<open>
  The world: the tile store, the current company's tree quota (\<open>c->tree_limit\<close>, the
  quota proper in its upper 16 bits), the synchronized and the interactive random
  streams, the two file-level caches of tree\_cmd.cpp, and \<open>ext\<close>, the state of the
  collaborators whose code is not under src/ (town ratings, the water tiles' flooding
  markers, the company's other counters).
\<close>

record ('r, 'x) world =
  tiles :: "TileIndex \<Rightarrow> Tile"
  tree_limit :: "32 word"
  random_state :: 'r
  interactive_random_state :: 'r
  previous_trees_around_snow_line_range :: nat
  arctic_tree_occurance :: "nat list"
  ext :: 'x

text \<open>
  The environment of a command: the game settings and globals the code reads, and, as
  parameters, everything tree\_cmd.cpp uses whose declaration is not under src/: the
  values of the TreeType enumeration and the per-climate tables (tree\_map.h,
  table/tree\_land.h), the snow line functions, the random generators, and the
  collaborators \<open>DoCommand(tile, 0, 0, flags, CMD_LANDSCAPE_CLEAR)\<close>,
  \<open>ClosestTownFromTile\<close> with \<open>ChangeTownRating\<close>, and
  \<open>ClearNeighbourNonFloodingStates\<close>. The clearing sub-command sees the flags, the
  tile and the collaborator state, and returns its Cost/Result with the tile and the
  collaborator state it leaves.
\<close>

record ('r, 'x) env =
  game_mode_editor :: bool
  current_company_valid :: bool
  landscape :: LandscapeID
  tree_placer :: TreePlacer
  trees_around_snow_line_enabled :: bool
  trees_around_snow_line_range :: nat
  snow_line_height :: nat
  map_height_limit :: nat
  extra_tree_placement :: ExtraTreePlacement
  tree_growth_rate :: nat
  price_build_trees :: Money
  MapSizeX :: nat
  MapSizeY :: nat
  HighestTreePlacementSnowLine :: int
  LowestTreePlacementSnowLine :: int
  GetSnowLine :: int
  TREE_TEMPERATE :: TreeType
  TREE_SUB_ARCTIC :: TreeType
  TREE_RAINFOREST :: TreeType
  TREE_CACTUS :: TreeType
  TREE_SUB_TROPICAL :: TreeType
  TREE_TOYLAND :: TreeType
  TREE_INVALID :: TreeType
  TREE_COUNT_TEMPERATE :: nat
  TREE_COUNT_SUB_ARCTIC :: nat
  TREE_COUNT_RAINFOREST :: nat
  TREE_COUNT_SUB_TROPICAL :: nat
  TREE_COUNT_TOYLAND :: nat
  tree_base_by_landscape :: "LandscapeID \<Rightarrow> nat"
  tree_count_by_landscape :: "LandscapeID \<Rightarrow> nat"
  Random :: "'r \<Rightarrow> 32 word \<times> 'r"
  RandomRange :: "nat \<Rightarrow> 'r \<Rightarrow> nat \<times> 'r"
  DoCommand_LANDSCAPE_CLEAR ::
    "DoCommandFlag set \<Rightarrow> TileIndex \<Rightarrow> Tile \<Rightarrow> 'x \<Rightarrow> CommandCost \<times> Tile \<times> 'x"
  ChangeTownRating_tree_up :: "DoCommandFlag set \<Rightarrow> TileIndex \<Rightarrow> 'x \<Rightarrow> 'x"
  ClearNeighbourNonFloodingStates :: "TileIndex \<Rightarrow> 'x \<Rightarrow> 'x"

subsection \<open>Bit and range helpers (core/bitmath\_func.hpp, core/math\_func.hpp)\<close>

text \<open>
  \<open>GB(x, s, n)\<close> fetches n bits of x starting at bit s. \<open>IsInsideMM\<close> and
  \<open>IsInsideBS\<close> are the unsigned range tests \<open>(uint)(x - min) < (uint)(max - min)\<close> and
  \<open>(uint)(x - base) < size\<close>, with the 32-bit wrap-around written out.
\<close>

definition GB :: "32 word \<Rightarrow> nat \<Rightarrow> nat \<Rightarrow> nat" where
  "GB x s n = unat (take_bit n (drop_bit s x))"

definition IsInsideMM :: "nat \<Rightarrow> nat \<Rightarrow> nat \<Rightarrow> bool" where
  "IsInsideMM x mn mx = ((int x - int mn) mod 2 ^ 32 < (int mx - int mn) mod 2 ^ 32)"

definition IsInsideBS :: "nat \<Rightarrow> nat \<Rightarrow> nat \<Rightarrow> bool" where
  "IsInsideBS x base sz = ((int x - int base) mod 2 ^ 32 < int sz)"

definition INT32_MAX :: int where
  "INT32_MAX = 2147483647"

subsection \<open>Tile accessors\<close>

abbreviation GetTileType :: "('r, 'x) world \<Rightarrow> TileIndex \<Rightarrow> TileType" where
  "GetTileType w t \<equiv> tile_type (tiles w t)"

abbreviation IsTileType :: "('r, 'x) world \<Rightarrow> TileIndex \<Rightarrow> TileType \<Rightarrow> bool" where
  "IsTileType w t ty \<equiv> tile_type (tiles w t) = ty"

abbreviation GetTileZ :: "('r, 'x) world \<Rightarrow> TileIndex \<Rightarrow> nat" where
  "GetTileZ w t \<equiv> tile_z (tiles w t)"

abbreviation IsBridgeAbove :: "('r, 'x) world \<Rightarrow> TileIndex \<Rightarrow> bool" where
  "IsBridgeAbove w t \<equiv> bridge_above (tiles w t)"

abbreviation IsCoast :: "('r, 'x) world \<Rightarrow> TileIndex \<Rightarrow> bool" where
  "IsCoast w t \<equiv> coast (tiles w t)"

abbreviation GetTropicZone :: "('r, 'x) world \<Rightarrow> TileIndex \<Rightarrow> TropicZone" where
  "GetTropicZone w t \<equiv> tropic_zone (tiles w t)"

abbreviation GetClearGround :: "('r, 'x) world \<Rightarrow> TileIndex \<Rightarrow> ClearGround" where
  "GetClearGround w t \<equiv> clear_ground (tiles w t)"

abbreviation IsClearGround :: "('r, 'x) world \<Rightarrow> TileIndex \<Rightarrow> ClearGround \<Rightarrow> bool" where
  "IsClearGround w t g \<equiv> clear_ground (tiles w t) = g"

abbreviation GetRawClearGround :: "('r, 'x) world \<Rightarrow> TileIndex \<Rightarrow> ClearGround" where
  "GetRawClearGround w t \<equiv> raw_clear_ground (tiles w t)"

abbreviation GetClearDensity :: "('r, 'x) world \<Rightarrow> TileIndex \<Rightarrow> nat" where
  "GetClearDensity w t \<equiv> clear_density (tiles w t)"

abbreviation GetTreeType :: "('r, 'x) world \<Rightarrow> TileIndex \<Rightarrow> TreeType" where
  "GetTreeType w t \<equiv> tree_type (tiles w t)"

abbreviation GetTreeCount :: "('r, 'x) world \<Rightarrow> TileIndex \<Rightarrow> nat" where
  "GetTreeCount w t \<equiv> tree_count (tiles w t)"

abbreviation GetTreeGrowth :: "('r, 'x) world \<Rightarrow> TileIndex \<Rightarrow> nat" where
  "GetTreeGrowth w t \<equiv> tree_growth (tiles w t)"

abbreviation GetTreeGround :: "('r, 'x) world \<Rightarrow> TileIndex \<Rightarrow> TreeGround" where
  "GetTreeGround w t \<equiv> tree_ground (tiles w t)"

abbreviation GetTreeDensity :: "('r, 'x) world \<Rightarrow> TileIndex \<Rightarrow> nat" where
  "GetTreeDensity w t \<equiv> tree_density (tiles w t)"

definition set_tile :: "('r, 'x) world \<Rightarrow> TileIndex \<Rightarrow> Tile \<Rightarrow> ('r, 'x) world" where
  "set_tile w t x = w\<lparr>tiles := (tiles w)(t := x)\<rparr>"

definition SetTreeGrowth :: "('r, 'x) world \<Rightarrow> TileIndex \<Rightarrow> nat \<Rightarrow> ('r, 'x) world" where
  "SetTreeGrowth w t g = set_tile w t ((tiles w t)\<lparr>tree_growth := g\<rparr>)"

definition AddTreeGrowth :: "('r, 'x) world \<Rightarrow> TileIndex \<Rightarrow> nat \<Rightarrow> ('r, 'x) world" where
  "AddTreeGrowth w t a = set_tile w t ((tiles w t)\<lparr>tree_growth := tree_growth (tiles w t) + a\<rparr>)"

definition AddTreeCount :: "('r, 'x) world \<Rightarrow> TileIndex \<Rightarrow> int \<Rightarrow> ('r, 'x) world" where
  "AddTreeCount w t c =
     set_tile w t ((tiles w t)\<lparr>tree_count := nat (int (tree_count (tiles w t)) + c)\<rparr>)"

definition SetTreeGroundDensity ::
  "('r, 'x) world \<Rightarrow> TileIndex \<Rightarrow> TreeGround \<Rightarrow> nat \<Rightarrow> ('r, 'x) world" where
  "SetTreeGroundDensity w t g d = set_tile w t ((tiles w t)\<lparr>tree_ground := g, tree_density := d\<rparr>)"

definition SetTropicZone :: "('r, 'x) world \<Rightarrow> TileIndex \<Rightarrow> TropicZone \<Rightarrow> ('r, 'x) world" where
  "SetTropicZone w t z = set_tile w t ((tiles w t)\<lparr>tropic_zone := z\<rparr>)"

text \<open>
  \<open>MakeTree(t, type, count, growth, ground, density)\<close> turns the tile into a trees tile.
  Its \<open>count\<close> argument is "the number of trees (minus 1)", as the comment of
  PlantTreesOnTile says, so the stem count stored is \<open>count + 1\<close>.
\<close>

definition MakeTree ::
  "('r, 'x) world \<Rightarrow> TileIndex \<Rightarrow> TreeType \<Rightarrow> nat \<Rightarrow> nat \<Rightarrow> TreeGround \<Rightarrow> nat \<Rightarrow> ('r, 'x) world" where
  "MakeTree w t ty cnt growth ground density =
     set_tile w t ((tiles w t)\<lparr>tile_type := MP_TREES, tree_type := ty, tree_count := cnt + 1,
        tree_growth := growth, tree_ground := ground, tree_density := density\<rparr>)"

section \<open>tree\_cmd.cpp\<close>

subsection \<open>CanPlantTreesOnTile, PlantTreesOnTile\<close>

definition CanPlantTreesOnTile ::
  "('r, 'x) env \<Rightarrow> ('r, 'x) world \<Rightarrow> TileIndex \<Rightarrow> bool \<Rightarrow> bool" where
  "CanPlantTreesOnTile env w tile allow_desert =
     (if tree_placer env = TP_PERFECT \<and> landscape env = LT_ARCTIC \<and>
         int (GetTileZ w tile) >
           HighestTreePlacementSnowLine env + int (trees_around_snow_line_range env)
      then False
      else (case GetTileType w tile of
              MP_WATER \<Rightarrow>
                \<not> IsBridgeAbove w tile \<and> IsCoast w tile \<and> \<not> slope_one_corner_raised (tiles w tile)
            | MP_CLEAR \<Rightarrow>
                \<not> IsBridgeAbove w tile \<and> \<not> IsClearGround w tile CLEAR_FIELDS \<and>
                GetRawClearGround w tile \<noteq> CLEAR_ROCKS \<and>
                (allow_desert \<or> \<not> IsClearGround w tile CLEAR_DESERT)
            | _ \<Rightarrow> False))"

text \<open>
  PlantTreesOnTile starts with two assertions and ends its switch on the tile type with
  \<open>NOT_REACHED()\<close>; each of them is the result \<open>None\<close>.
\<close>

definition PlantTreesOnTile ::
  "('r, 'x) env \<Rightarrow> ('r, 'x) world \<Rightarrow> TileIndex \<Rightarrow> TreeType \<Rightarrow> nat \<Rightarrow> nat \<Rightarrow> ('r, 'x) world option" where
  "PlantTreesOnTile env w tile treetype cnt growth =
     (if treetype = TREE_INVALID env then None
      else if \<not> CanPlantTreesOnTile env w tile True then None
      else (case GetTileType w tile of
              MP_WATER \<Rightarrow>
                Some (MakeTree (w\<lparr>ext := ClearNeighbourNonFloodingStates env tile (ext w)\<rparr>)
                        tile treetype cnt growth TREE_GROUND_SHORE 3)
            | MP_CLEAR \<Rightarrow>
                (let ground =
                       (case GetClearGround w tile of
                          CLEAR_GRASS \<Rightarrow> TREE_GROUND_GRASS
                        | CLEAR_ROUGH \<Rightarrow> TREE_GROUND_ROUGH
                        | CLEAR_SNOW \<Rightarrow>
                            (if GetRawClearGround w tile = CLEAR_ROUGH then TREE_GROUND_ROUGH_SNOW
                             else TREE_GROUND_SNOW_DESERT)
                        | _ \<Rightarrow> TREE_GROUND_SNOW_DESERT);
                     density =
                       (if GetClearGround w tile \<noteq> CLEAR_ROUGH then GetClearDensity w tile else 3)
                 in Some (MakeTree w tile treetype cnt growth ground density))
            | _ \<Rightarrow> None))"

subsection \<open>The arctic tree occurrence cache\<close>

text \<open>
  One round of the loop of RecalculateArcticTreeOccuranceArray: the value \<open>output\<close> for
  the distance i, in 32-bit unsigned arithmetic.
\<close>

definition arctic_output :: "nat \<Rightarrow> nat \<Rightarrow> 32 word" where
  "arctic_output srange i =
     (let x = (256 - word_of_nat ((128 * i) div srange) :: 32 word);
          o4 = x * x * x * x;
          o5 = drop_bit 16 o4;
          o6 = o5 * x * x
      in drop_bit 24 o6)"

function arctic_loop :: "nat \<Rightarrow> nat \<Rightarrow> nat list \<Rightarrow> nat list" where
  "arctic_loop srange i acc =
     (if i < 256 \<and> arctic_output srange i \<noteq> 0
      then arctic_loop srange (Suc i) (acc @ [unat (arctic_output srange i) mod 256])
      else acc)"
  by pat_completeness auto
termination
  by (relation "measure (\<lambda>(srange, i, acc). 256 - i)") auto

definition RecalculateArcticTreeOccuranceArray ::
  "('r, 'x) env \<Rightarrow> ('r, 'x) world \<Rightarrow> ('r, 'x) world" where
  "RecalculateArcticTreeOccuranceArray env w =
     (let srange = trees_around_snow_line_range env
      in w\<lparr>previous_trees_around_snow_line_range := srange,
            arctic_tree_occurance := (if srange = 0 then [255] else arctic_loop srange 1 [255])\<rparr>)"

subsection \<open>GetRandomTreeType\<close>

definition draw_Random :: "('r, 'x) env \<Rightarrow> ('r, 'x) world \<Rightarrow> 32 word \<times> ('r, 'x) world" where
  "draw_Random env w =
     (case Random env (random_state w) of (r, s) \<Rightarrow> (r, w\<lparr>random_state := s\<rparr>))"

definition draw_RandomRange :: "('r, 'x) env \<Rightarrow> nat \<Rightarrow> ('r, 'x) world \<Rightarrow> nat \<times> ('r, 'x) world" where
  "draw_RandomRange env limit w =
     (case RandomRange env limit (random_state w) of (r, s) \<Rightarrow> (r, w\<lparr>random_state := s\<rparr>))"

definition GetRandomTreeType ::
  "('r, 'x) env \<Rightarrow> ('r, 'x) world \<Rightarrow> TileIndex \<Rightarrow> nat \<Rightarrow> TreeType \<times> ('r, 'x) world" where
  "GetRandomTreeType env w tile seed =
     (case landscape env of
        LT_TEMPERATE \<Rightarrow> (seed * TREE_COUNT_TEMPERATE env div 256 + TREE_TEMPERATE env, w)
      | LT_ARCTIC \<Rightarrow>
          (if \<not> trees_around_snow_line_enabled env
           then (seed * TREE_COUNT_SUB_ARCTIC env div 256 + TREE_SUB_ARCTIC env, w)
           else
             (let w1 = (if trees_around_snow_line_range env \<noteq> previous_trees_around_snow_line_range w
                        then RecalculateArcticTreeOccuranceArray env w else w);
                  z = int (GetTileZ w1 tile);
                  height_above_snow_line =
                    (if z > HighestTreePlacementSnowLine env then z - HighestTreePlacementSnowLine env
                     else if z < LowestTreePlacementSnowLine env then z - LowestTreePlacementSnowLine env
                     else 0);
                  normalised_distance =
                    nat (if height_above_snow_line < 0 then - height_above_snow_line
                         else height_above_snow_line + 1)
              in case (if normalised_distance < length (arctic_tree_occurance w1)
                       then (case draw_RandomRange env 256 w1 of
                               (r, w2) \<Rightarrow> (r < arctic_tree_occurance w1 ! normalised_distance, w2))
                       else (False, w1)) of
                   (arctic_tree, w3) \<Rightarrow>
                     (if height_above_snow_line < 0
                      then (if arctic_tree
                            then (seed * TREE_COUNT_SUB_ARCTIC env div 256 + TREE_SUB_ARCTIC env, w3)
                            else (seed * TREE_COUNT_TEMPERATE env div 256 + TREE_TEMPERATE env, w3))
                      else (if arctic_tree
                            then (seed * TREE_COUNT_SUB_ARCTIC env div 256 + TREE_SUB_ARCTIC env, w3)
                            else (TREE_INVALID env, w3)))))
      | LT_TROPIC \<Rightarrow>
          (case GetTropicZone w tile of
             TROPICZONE_NORMAL \<Rightarrow>
               (seed * TREE_COUNT_SUB_TROPICAL env div 256 + TREE_SUB_TROPICAL env, w)
           | TROPICZONE_DESERT \<Rightarrow> (if seed > 12 then TREE_INVALID env else TREE_CACTUS env, w)
           | TROPICZONE_RAINFOREST \<Rightarrow>
               (seed * TREE_COUNT_RAINFOREST env div 256 + TREE_RAINFOREST env, w))
      | LT_TOYLAND \<Rightarrow> (seed * TREE_COUNT_TOYLAND env div 256 + TREE_TOYLAND env, w))"

subsection \<open>MaxTreeCount\<close>

definition GetSparseTreeRange :: "('r, 'x) env \<Rightarrow> int" where
  "GetSparseTreeRange env =
     (let max_map_height = max 32 (int (map_height_limit env))
      in min 8 ((4 * max_map_height) div 32))"

definition round_up_divide :: "nat \<Rightarrow> nat \<Rightarrow> nat" where
  "round_up_divide x y = x div y + (if x mod y \<noteq> 0 then 1 else 0)"

definition MaxTreeCount ::
  "('r, 'x) env \<Rightarrow> ('r, 'x) world \<Rightarrow> TileIndex \<Rightarrow> int \<times> ('r, 'x) world" where
  "MaxTreeCount env w tile =
     (let tile_z = int (GetTileZ w tile);
          z0 = int (round_up_divide (nat ((tile_z * 4) mod 2 ^ 32)) (nat (GetSparseTreeRange env)));
          z1 = max 1 z0;
          max_trees_z_based = z1 + (if landscape env \<noteq> LT_TROPIC then 0 else 1)
      in if landscape env = LT_ARCTIC
         then
           (let w1 = (if trees_around_snow_line_range env \<noteq> previous_trees_around_snow_line_range w
                      then RecalculateArcticTreeOccuranceArray env w else w);
                height_above_snow_line = nat (max 0 (tile_z - HighestTreePlacementSnowLine env));
                max_trees_snow_line_based =
                  (if height_above_snow_line < length (arctic_tree_occurance w1)
                   then 1 + (int (arctic_tree_occurance w1 ! height_above_snow_line) * 4) div 255
                   else 0)
            in (min max_trees_z_based max_trees_snow_line_based, w1))
         else (min max_trees_z_based 4, w))"

subsection \<open>The tile area of a drag\<close>

text \<open>
  Modelled from the spec: TileArea and its iterator (tilearea\_type.h) are not under src/.
  The area is the rectangle between the two corner tiles, visited in a fixed order, row by
  row.
\<close>

definition TileX :: "('r, 'x) env \<Rightarrow> TileIndex \<Rightarrow> nat" where
  "TileX env t = t mod MapSizeX env"

definition TileY :: "('r, 'x) env \<Rightarrow> TileIndex \<Rightarrow> nat" where
  "TileY env t = t div MapSizeX env"

definition TileXY :: "('r, 'x) env \<Rightarrow> nat \<Rightarrow> nat \<Rightarrow> TileIndex" where
  "TileXY env x y = y * MapSizeX env + x"

definition MapSize :: "('r, 'x) env \<Rightarrow> nat" where
  "MapSize env = MapSizeX env * MapSizeY env"

definition TileArea :: "('r, 'x) env \<Rightarrow> TileIndex \<Rightarrow> TileIndex \<Rightarrow> TileIndex list" where
  "TileArea env start end =
     (let sx = min (TileX env start) (TileX env end);
          ex = max (TileX env start) (TileX env end);
          sy = min (TileY env start) (TileY env end);
          ey = max (TileY env start) (TileY env end)
      in concat (map (\<lambda>y. map (\<lambda>x. TileXY env x y) [sx ..< Suc ex]) [sy ..< Suc ey]))"

subsection \<open>CmdPlantTree\<close>

text \<open>
  One round of the loop over the tile area ends in one of four ways: the loop goes on with
  the next tile (\<open>continue\<close>, or the end of the body with \<open>limit \<ge> 0\<close>), the loop is left
  (\<open>if (limit < 0) break\<close>), the command returns the failed Cost/Result of the clearing
  sub-command, or an assertion of PlantTreesOnTile fails. The round hands back the world,
  the local \<open>limit\<close>, the accumulated \<open>cost\<close> and, when it assigns \<open>msg\<close>, the reason
  assigned.
\<close>

datatype 'w plant_step =
    Step_next 'w int CommandCost "StringID option"
  | Step_stop 'w int CommandCost "StringID option"
  | Step_return CommandCost 'w
  | Step_abort

definition loop_end :: "'w \<Rightarrow> int \<Rightarrow> CommandCost \<Rightarrow> StringID option \<Rightarrow> 'w plant_step" where
  "loop_end w limit cst mo = (if limit < 0 then Step_stop w limit cst mo else Step_next w limit cst mo)"

text \<open>
  \<open>c\<close> is the current company outside the editor, and null in the editor or when the
  current company is not valid; \<open>if (c != nullptr) c->tree_limit -= 1 << 16\<close>.
\<close>

definition company_ptr :: "('r, 'x) env \<Rightarrow> bool" where
  "company_ptr env = (\<not> game_mode_editor env \<and> current_company_valid env)"

definition dec_tree_limit :: "('r, 'x) env \<Rightarrow> ('r, 'x) world \<Rightarrow> ('r, 'x) world" where
  "dec_tree_limit env w = (if company_ptr env then w\<lparr>tree_limit := tree_limit w - 65536\<rparr> else w)"

text \<open>
  The test "no more space for trees?" of the TP\_PERFECT placer, with the short-circuit
  evaluation of the source: MaxTreeCount (which may refresh the cache) is called only
  when the tile has fewer than 4 stems and does not hold cacti.
\<close>

definition no_more_space ::
  "('r, 'x) env \<Rightarrow> ('r, 'x) world \<Rightarrow> TileIndex \<Rightarrow> bool \<times> ('r, 'x) world" where
  "no_more_space env w tile =
     (if GetTreeCount w tile \<ge> 4 then (True, w)
      else if GetTreeType w tile \<noteq> TREE_CACTUS env
      then (case MaxTreeCount env w tile of (m, w1) \<Rightarrow> (int (GetTreeCount w tile) \<ge> m, w1))
      else (False, w))"

definition plant_trees_rest ::
  "('r, 'x) env \<Rightarrow> DoCommandFlag set \<Rightarrow> TileIndex \<Rightarrow> ('r, 'x) world \<Rightarrow> int \<Rightarrow> CommandCost \<Rightarrow> bool
     \<Rightarrow> ('r, 'x) world plant_step" where
  "plant_trees_rest env flags tile w limit cst grow_existing_tree_instead =
     (if limit - 1 < 1 then loop_end w (limit - 1) cst (Some STR_ERROR_TREE_PLANT_LIMIT_REACHED)
      else
        (let w1 = (if DC_EXEC \<in> flags
                   then dec_tree_limit env
                          (if grow_existing_tree_instead then SetTreeGrowth w tile 3
                           else AddTreeCount w tile 1)
                   else w)
         in loop_end w1 (limit - 1) (AddCostMoney cst (price_build_trees env * 2)) None))"

definition plant_case_trees ::
  "('r, 'x) env \<Rightarrow> DoCommandFlag set \<Rightarrow> TileIndex \<Rightarrow> ('r, 'x) world \<Rightarrow> int \<Rightarrow> CommandCost
     \<Rightarrow> ('r, 'x) world plant_step" where
  "plant_case_trees env flags tile w limit cst =
     (if tree_placer env = TP_PERFECT
      then (case no_more_space env w tile of
              (nospace, w1) \<Rightarrow>
                (if nospace
                 then (if GetTreeGrowth w1 tile < 3
                       then plant_trees_rest env flags tile w1 limit cst True
                       else Step_next w1 limit cst (Some STR_ERROR_TREE_ALREADY_HERE))
                 else plant_trees_rest env flags tile w1 limit cst False))
      else (if GetTreeCount w tile = 4
            then Step_next w limit cst (Some STR_ERROR_TREE_ALREADY_HERE)
            else plant_trees_rest env flags tile w limit cst False))"

definition wrong_terrain :: "('r, 'x) env \<Rightarrow> ('r, 'x) world \<Rightarrow> TileIndex \<Rightarrow> TreeType \<Rightarrow> bool" where
  "wrong_terrain env w tile treetype =
     (landscape env = LT_TROPIC \<and> treetype \<noteq> TREE_INVALID env \<and>
      ((treetype = TREE_CACTUS env \<and> GetTropicZone w tile \<noteq> TROPICZONE_DESERT) \<or>
       (IsInsideMM treetype (TREE_RAINFOREST env) (TREE_CACTUS env) \<and>
          GetTropicZone w tile \<noteq> TROPICZONE_RAINFOREST \<and> \<not> game_mode_editor env) \<or>
       (IsInsideMM treetype (TREE_SUB_TROPICAL env) (TREE_TOYLAND env) \<and>
          GetTropicZone w tile \<noteq> TROPICZONE_NORMAL)))"

text \<open>
  "Remove fields or rocks": the clearing sub-command, run with the flags of the parent.
  \<open>Inl\<close> is \<open>if (ret.Failed()) return ret\<close>, \<open>Inr\<close> carries on with \<open>cost.AddCost(ret)\<close>.
\<close>

definition clear_fields_or_rocks ::
  "('r, 'x) env \<Rightarrow> DoCommandFlag set \<Rightarrow> TileIndex \<Rightarrow> ('r, 'x) world \<Rightarrow> CommandCost
     \<Rightarrow> (CommandCost \<times> ('r, 'x) world) + (CommandCost \<times> ('r, 'x) world)" where
  "clear_fields_or_rocks env flags tile w cst =
     (if IsTileType w tile MP_CLEAR \<and>
         (GetRawClearGround w tile = CLEAR_FIELDS \<or> GetRawClearGround w tile = CLEAR_ROCKS)
      then (case DoCommand_LANDSCAPE_CLEAR env flags tile (tiles w tile) (ext w) of
              (ret, x, e) \<Rightarrow>
                (if Failed ret then Inl (ret, (set_tile w tile x)\<lparr>ext := e\<rparr>)
                 else Inr (AddCost cst ret, (set_tile w tile x)\<lparr>ext := e\<rparr>)))
      else Inr (cst, w))"

text \<open>The choice of a random tree type when the command asks for \<open>TREE_INVALID\<close>.\<close>

definition choose_treetype ::
  "('r, 'x) env \<Rightarrow> ('r, 'x) world \<Rightarrow> TileIndex \<Rightarrow> TreeType \<Rightarrow> TreeType \<times> ('r, 'x) world" where
  "choose_treetype env w tile treetype =
     (if treetype = TREE_INVALID env
      then (case draw_Random env w of
              (r, w1) \<Rightarrow>
                (case GetRandomTreeType env w1 tile (GB r 24 8) of
                   (tt, w2) \<Rightarrow>
                     (if tt = TREE_INVALID env
                      then (if trees_around_snow_line_enabled env \<and> landscape env = LT_ARCTIC
                            then (if GetTileZ w2 tile \<le> snow_line_height env
                                  then (case draw_Random env w2 of
                                          (r2, w3) \<Rightarrow>
                                            (GB r2 24 8 * TREE_COUNT_TEMPERATE env div 256
                                               + TREE_TEMPERATE env, w3))
                                  else (case draw_Random env w2 of
                                          (r2, w3) \<Rightarrow>
                                            (GB r2 24 8 * TREE_COUNT_SUB_ARCTIC env div 256
                                               + TREE_SUB_ARCTIC env, w3)))
                            else (TREE_CACTUS env, w2))
                      else (tt, w2))))
      else (treetype, w))"

text \<open>
  The town rating change of the clear case: outside the editor and for a valid company, the
  closest town within the local authority distance (if any) gets its rating raised;
  ChangeTownRating is handed the flags of the command.
\<close>

definition rate_town_for_tree ::
  "('r, 'x) env \<Rightarrow> DoCommandFlag set \<Rightarrow> TileIndex \<Rightarrow> ('r, 'x) world \<Rightarrow> ('r, 'x) world" where
  "rate_town_for_tree env flags tile w =
     (if \<not> game_mode_editor env \<and> current_company_valid env
      then w\<lparr>ext := ChangeTownRating_tree_up env flags tile (ext w)\<rparr>
      else w)"

text \<open>
  The body of \<open>if (flags & DC_EXEC)\<close> of the clear case: the tree type is chosen, the tree
  is planted (full grown in the editor), the quota is charged, and in the editor a
  rainforest tree turns the tile into rainforest. \<open>None\<close> is a failed assertion of
  PlantTreesOnTile.
\<close>

definition plant_new_tree ::
  "('r, 'x) env \<Rightarrow> TileIndex \<Rightarrow> TreeType \<Rightarrow> ('r, 'x) world \<Rightarrow> ('r, 'x) world option" where
  "plant_new_tree env tile tree_to_plant w =
     (case choose_treetype env w tile tree_to_plant of
        (treetype, w3) \<Rightarrow>
          (case PlantTreesOnTile env w3 tile treetype 0 (if game_mode_editor env then 3 else 0) of
             None \<Rightarrow> None
           | Some w4 \<Rightarrow>
               Some (if game_mode_editor env \<and>
                        IsInsideMM treetype (TREE_RAINFOREST env) (TREE_CACTUS env)
                     then SetTropicZone (dec_tree_limit env w4) tile TROPICZONE_RAINFOREST
                     else dec_tree_limit env w4)))"

definition plant_case_clear ::
  "('r, 'x) env \<Rightarrow> DoCommandFlag set \<Rightarrow> TreeType \<Rightarrow> TileIndex \<Rightarrow> ('r, 'x) world \<Rightarrow> int \<Rightarrow> CommandCost
     \<Rightarrow> ('r, 'x) world plant_step" where
  "plant_case_clear env flags tree_to_plant tile w limit cst =
     (if \<not> CanPlantTreesOnTile env w tile False \<or> IsBridgeAbove w tile
      then Step_next w limit cst (Some STR_ERROR_SITE_UNSUITABLE)
      else if wrong_terrain env w tile tree_to_plant
      then Step_next w limit cst (Some STR_ERROR_TREE_WRONG_TERRAIN_FOR_TREE_TYPE)
      else if limit - 1 < 1
      then loop_end w (limit - 1) cst (Some STR_ERROR_TREE_PLANT_LIMIT_REACHED)
      else (case clear_fields_or_rocks env flags tile w cst of
              Inl (ret, w1) \<Rightarrow> Step_return ret w1
            | Inr (cst1, w1) \<Rightarrow>
                (if DC_EXEC \<in> flags
                 then (case plant_new_tree env tile tree_to_plant
                              (rate_town_for_tree env flags tile w1) of
                         None \<Rightarrow> Step_abort
                       | Some w6 \<Rightarrow>
                           loop_end w6 (limit - 1) (AddCostMoney cst1 (price_build_trees env)) None)
                 else loop_end (rate_town_for_tree env flags tile w1) (limit - 1)
                        (AddCostMoney cst1 (price_build_trees env)) None)))"

definition plant_tile ::
  "('r, 'x) env \<Rightarrow> DoCommandFlag set \<Rightarrow> TreeType \<Rightarrow> TileIndex \<Rightarrow> ('r, 'x) world \<Rightarrow> int \<Rightarrow> CommandCost
     \<Rightarrow> ('r, 'x) world plant_step" where
  "plant_tile env flags tree_to_plant tile w limit cst =
     (case GetTileType w tile of
        MP_TREES \<Rightarrow> plant_case_trees env flags tile w limit cst
      | MP_WATER \<Rightarrow>
          (if \<not> CanPlantTreesOnTile env w tile False \<or> \<not> IsCoast w tile \<or>
              slope_one_corner_raised (tiles w tile)
           then Step_next w limit cst (Some STR_ERROR_CAN_T_BUILD_ON_WATER)
           else plant_case_clear env flags tree_to_plant tile w limit cst)
      | MP_CLEAR \<Rightarrow> plant_case_clear env flags tree_to_plant tile w limit cst
      | _ \<Rightarrow> loop_end w limit cst (Some STR_ERROR_SITE_UNSUITABLE))"

datatype 'w loop_result =
    Loop_done 'w int CommandCost StringID
  | Loop_return CommandCost 'w
  | Loop_abort

definition assign_msg :: "StringID option \<Rightarrow> StringID \<Rightarrow> StringID" where
  "assign_msg mo msg = (case mo of None \<Rightarrow> msg | Some m \<Rightarrow> m)"

fun plant_loop ::
  "('r, 'x) env \<Rightarrow> DoCommandFlag set \<Rightarrow> TreeType \<Rightarrow> TileIndex list \<Rightarrow> ('r, 'x) world \<Rightarrow> int
     \<Rightarrow> CommandCost \<Rightarrow> StringID \<Rightarrow> ('r, 'x) world loop_result" where
  "plant_loop env flags tree_to_plant [] w limit cst msg = Loop_done w limit cst msg"
| "plant_loop env flags tree_to_plant (tile # rest) w limit cst msg =
     (case plant_tile env flags tree_to_plant tile w limit cst of
        Step_next w1 l1 c1 mo \<Rightarrow> plant_loop env flags tree_to_plant rest w1 l1 c1 (assign_msg mo msg)
      | Step_stop w1 l1 c1 mo \<Rightarrow> Loop_done w1 l1 c1 (assign_msg mo msg)
      | Step_return ret w1 \<Rightarrow> Loop_return ret w1
      | Step_abort \<Rightarrow> Loop_abort)"

text \<open>
  \<open>CmdPlantTree(tile, flags, p1, p2, text)\<close>; the text is unused. The result is the
  Cost/Result with the world the command leaves, or \<open>None\<close> when an assertion fails.
\<close>

definition CmdPlantTree ::
  "('r, 'x) env \<Rightarrow> TileIndex \<Rightarrow> DoCommandFlag set \<Rightarrow> 32 word \<Rightarrow> 32 word \<Rightarrow> ('r, 'x) world
     \<Rightarrow> (CommandCost \<times> ('r, 'x) world) option" where
  "CmdPlantTree env tile flags p1 p2 w =
     (let tree_to_plant = GB p1 0 8
      in if unat p2 \<ge> MapSize env then Some (CMD_ERROR, w)
         else if tree_to_plant \<noteq> TREE_INVALID env \<and>
                 \<not> IsInsideBS tree_to_plant (tree_base_by_landscape env (landscape env))
                      (tree_count_by_landscape env (landscape env))
         then Some (CMD_ERROR, w)
         else
           (let limit = (if company_ptr env then int (GB (tree_limit w) 16 16) else INT32_MAX)
            in case plant_loop env flags tree_to_plant (TileArea env tile (unat p2)) w limit
                      (CommandCost_of EXPENSES_OTHER) INVALID_STRING_ID of
                 Loop_done w1 l c msg \<Rightarrow>
                   Some (if GetCost c = 0 then return_cmd_error msg else c, w1)
               | Loop_return ret w1 \<Rightarrow> Some (ret, w1)
               | Loop_abort \<Rightarrow> None))"

subsection \<open>Repeated runs of the command\<close>

text \<open>The command run n times in a row with the same descriptor, each run on the world the
  previous one left.\<close>

fun repeat_CmdPlantTree ::
  "('r, 'x) env \<Rightarrow> TileIndex \<Rightarrow> DoCommandFlag set \<Rightarrow> 32 word \<Rightarrow> 32 word \<Rightarrow> nat \<Rightarrow> ('r, 'x) world
     \<Rightarrow> ('r, 'x) world option" where
  "repeat_CmdPlantTree env tile flags p1 p2 0 w = Some w"
| "repeat_CmdPlantTree env tile flags p1 p2 (Suc n) w =
     (case CmdPlantTree env tile flags p1 p2 w of
        None \<Rightarrow> None
      | Some (r, w1) \<Rightarrow> repeat_CmdPlantTree env tile flags p1 p2 n w1)"

section \<open>A sample environment and sample worlds\<close>

text \<open>
  A concrete instance on which the theorems below are exercised: a 4 by 4 temperate map,
  the TreeType values and per-climate tables of a usual build, a build-tree price of 20,
  a valid current company, simple random generators, a clearing sub-command that
  succeeds at a cost of 50 (and fails on a tile with a bridge above), and collaborators
  that count their calls in the collaborator state.
\<close>

definition grass_tile :: Tile where
  "grass_tile = \<lparr>tile_type = MP_CLEAR, tile_z = 1, tile_height = 1, bridge_above = False,
     coast = False, slope_one_corner_raised = False, tropic_zone = TROPICZONE_NORMAL,
     clear_ground = CLEAR_GRASS, raw_clear_ground = CLEAR_GRASS, clear_density = 3,
     tree_type = 0, tree_count = 0, tree_growth = 0, tree_ground = TREE_GROUND_GRASS,
     tree_density = 0\<rparr>"

definition trees_tile :: "nat \<Rightarrow> nat \<Rightarrow> Tile" where
  "trees_tile cnt growth =
     grass_tile\<lparr>tile_type := MP_TREES, tree_type := 3, tree_count := cnt, tree_growth := growth\<rparr>"

definition house_tile :: Tile where
  "house_tile = grass_tile\<lparr>tile_type := MP_HOUSE\<rparr>"

definition snowy_fields_tile :: Tile where
  "snowy_fields_tile = grass_tile\<lparr>clear_ground := CLEAR_SNOW, raw_clear_ground := CLEAR_FIELDS\<rparr>"

definition sample_clear ::
  "DoCommandFlag set \<Rightarrow> TileIndex \<Rightarrow> Tile \<Rightarrow> nat \<Rightarrow> CommandCost \<times> Tile \<times> nat" where
  "sample_clear flags t x e =
     (if bridge_above x then (return_cmd_error (STR_OTHER 1), x, e)
      else ((CommandCost_of EXPENSES_CONSTRUCTION)\<lparr>cost := 50\<rparr>,
            (if DC_EXEC \<in> flags
             then x\<lparr>clear_ground := CLEAR_GRASS, raw_clear_ground := CLEAR_GRASS, clear_density := 0\<rparr>
             else x),
            (if DC_EXEC \<in> flags then Suc e else e)))"


definition sample_tree_base :: "LandscapeID \<Rightarrow> nat" where
  "sample_tree_base l = (case l of LT_TEMPERATE \<Rightarrow> 0 | LT_ARCTIC \<Rightarrow> 12 | LT_TROPIC \<Rightarrow> 20 | LT_TOYLAND \<Rightarrow> 32)"

definition sample_tree_count :: "LandscapeID \<Rightarrow> nat" where
  "sample_tree_count l = (case l of LT_TEMPERATE \<Rightarrow> 12 | LT_ARCTIC \<Rightarrow> 8 | LT_TROPIC \<Rightarrow> 12 | LT_TOYLAND \<Rightarrow> 9)"

definition sample_Random :: "nat \<Rightarrow> 32 word \<times> nat" where
  "sample_Random s = (word_of_nat (s * 1103515245 + 12345), Suc s)"

definition sample_RandomRange :: "nat \<Rightarrow> nat \<Rightarrow> nat \<times> nat" where
  "sample_RandomRange limit s = ((s * 7 + 3) mod limit, Suc s)"

definition sample_town_rating :: "DoCommandFlag set \<Rightarrow> TileIndex \<Rightarrow> nat \<Rightarrow> nat" where
  "sample_town_rating flags t e = (if DC_EXEC \<in> flags then e + 100 else e)"

definition sample_flooding :: "TileIndex \<Rightarrow> nat \<Rightarrow> nat" where
  "sample_flooding t e = e"

definition sample_env :: "(nat, nat) env" where
  "sample_env = \<lparr>game_mode_editor = False,
     current_company_valid = True,
     landscape = LT_TEMPERATE,
     tree_placer = TP_ORIGINAL,
     trees_around_snow_line_enabled = False,
     trees_around_snow_line_range = 8,
     snow_line_height = 10,
     map_height_limit = 255,
     extra_tree_placement = ETP_SPREAD_ALL,
     tree_growth_rate = 0,
     price_build_trees = 20,
     MapSizeX = 4,
     MapSizeY = 4,
     HighestTreePlacementSnowLine = 10,
     LowestTreePlacementSnowLine = 8,
     GetSnowLine = 10,
     TREE_TEMPERATE = 0,
     TREE_SUB_ARCTIC = 12,
     TREE_RAINFOREST = 20,
     TREE_CACTUS = 27,
     TREE_SUB_TROPICAL = 28,
     TREE_TOYLAND = 32,
     TREE_INVALID = 255,
     TREE_COUNT_TEMPERATE = 12,
     TREE_COUNT_SUB_ARCTIC = 8,
     TREE_COUNT_RAINFOREST = 7,
     TREE_COUNT_SUB_TROPICAL = 4,
     TREE_COUNT_TOYLAND = 9,
     tree_base_by_landscape = sample_tree_base,
     tree_count_by_landscape = sample_tree_count,
     Random = sample_Random,
     RandomRange = sample_RandomRange,
     DoCommand_LANDSCAPE_CLEAR = sample_clear,
     ChangeTownRating_tree_up = sample_town_rating,
     ClearNeighbourNonFloodingStates = sample_flooding\<rparr>"

lemma sample_env_sel:
  "game_mode_editor sample_env = False"
  "current_company_valid sample_env = True"
  "landscape sample_env = LT_TEMPERATE"
  "tree_placer sample_env = TP_ORIGINAL"
  "trees_around_snow_line_enabled sample_env = False"
  "trees_around_snow_line_range sample_env = 8"
  "snow_line_height sample_env = 10"
  "map_height_limit sample_env = 255"
  "extra_tree_placement sample_env = ETP_SPREAD_ALL"
  "tree_growth_rate sample_env = 0"
  "price_build_trees sample_env = 20"
  "MapSizeX sample_env = 4"
  "MapSizeY sample_env = 4"
  "HighestTreePlacementSnowLine sample_env = 10"
  "LowestTreePlacementSnowLine sample_env = 8"
  "GetSnowLine sample_env = 10"
  "TREE_TEMPERATE sample_env = 0"
  "TREE_SUB_ARCTIC sample_env = 12"
  "TREE_RAINFOREST sample_env = 20"
  "TREE_CACTUS sample_env = 27"
  "TREE_SUB_TROPICAL sample_env = 28"
  "TREE_TOYLAND sample_env = 32"
  "TREE_INVALID sample_env = 255"
  "TREE_COUNT_TEMPERATE sample_env = 12"
  "TREE_COUNT_SUB_ARCTIC sample_env = 8"
  "TREE_COUNT_RAINFOREST sample_env = 7"
  "TREE_COUNT_SUB_TROPICAL sample_env = 4"
  "TREE_COUNT_TOYLAND sample_env = 9"
  "tree_base_by_landscape sample_env = sample_tree_base"
  "tree_count_by_landscape sample_env = sample_tree_count"
  "Random sample_env = sample_Random"
  "RandomRange sample_env = sample_RandomRange"
  "DoCommand_LANDSCAPE_CLEAR sample_env = sample_clear"
  "ChangeTownRating_tree_up sample_env = sample_town_rating"
  "ClearNeighbourNonFloodingStates sample_env = sample_flooding"
  by (simp_all add: sample_env_def)

text \<open>A world over a given tile store, with a tree quota of q plantings.\<close>

definition sample_world :: "(TileIndex \<Rightarrow> Tile) \<Rightarrow> nat \<Rightarrow> (nat, nat) world" where
  "sample_world ts q = \<lparr>tiles = ts, tree_limit = word_of_nat (q * 65536),
     random_state = 1, interactive_random_state = 2,
     previous_trees_around_snow_line_range = 255, arctic_tree_occurance = [], ext = 0\<rparr>"

section \<open>Auxiliary lemmas\<close>

lemmas tile_update_defs =
  set_tile_def SetTreeGrowth_def AddTreeGrowth_def AddTreeCount_def SetTreeGroundDensity_def
  SetTropicZone_def MakeTree_def

lemma Recalculate_frame:
  "tiles (RecalculateArcticTreeOccuranceArray env w) = tiles w"
  "tree_limit (RecalculateArcticTreeOccuranceArray env w) = tree_limit w"
  "ext (RecalculateArcticTreeOccuranceArray env w) = ext w"
  "random_state (RecalculateArcticTreeOccuranceArray env w) = random_state w"
  "interactive_random_state (RecalculateArcticTreeOccuranceArray env w) = interactive_random_state w"
  by (simp_all add: RecalculateArcticTreeOccuranceArray_def Let_def)

lemma MaxTreeCount_frame:
  assumes "MaxTreeCount env w t = (m, w1)"
  shows "tiles w1 = tiles w \<and> tree_limit w1 = tree_limit w \<and> ext w1 = ext w \<and>
         random_state w1 = random_state w \<and> interactive_random_state w1 = interactive_random_state w"
  using assms by (auto simp: MaxTreeCount_def Let_def Recalculate_frame split: if_splits)

lemma no_more_space_frame:
  assumes "no_more_space env w t = (b, w1)"
  shows "tiles w1 = tiles w \<and> tree_limit w1 = tree_limit w \<and> ext w1 = ext w \<and>
         random_state w1 = random_state w \<and> interactive_random_state w1 = interactive_random_state w"
  using assms
  by (auto simp: no_more_space_def split: if_splits prod.splits dest: MaxTreeCount_frame)

lemma draw_Random_frame:
  assumes "draw_Random env w = (r, w1)"
  shows "tiles w1 = tiles w \<and> tree_limit w1 = tree_limit w \<and> ext w1 = ext w \<and>
         interactive_random_state w1 = interactive_random_state w \<and>
         previous_trees_around_snow_line_range w1 = previous_trees_around_snow_line_range w \<and>
         arctic_tree_occurance w1 = arctic_tree_occurance w"
  using assms by (auto simp: draw_Random_def split: prod.splits)

lemma draw_RandomRange_frame:
  assumes "draw_RandomRange env n w = (r, w1)"
  shows "tiles w1 = tiles w \<and> tree_limit w1 = tree_limit w \<and> ext w1 = ext w \<and>
         interactive_random_state w1 = interactive_random_state w \<and>
         previous_trees_around_snow_line_range w1 = previous_trees_around_snow_line_range w \<and>
         arctic_tree_occurance w1 = arctic_tree_occurance w"
  using assms by (auto simp: draw_RandomRange_def split: prod.splits)

lemma GetRandomTreeType_frame:
  assumes "GetRandomTreeType env w t seed = (tt, w1)"
  shows "tiles w1 = tiles w \<and> tree_limit w1 = tree_limit w \<and> ext w1 = ext w \<and>
         interactive_random_state w1 = interactive_random_state w"
  using assms
  by (auto simp: GetRandomTreeType_def Let_def Recalculate_frame
      split: if_splits prod.splits LandscapeID.splits TropicZone.splits
      dest!: draw_RandomRange_frame)

lemma choose_treetype_frame:
  assumes "choose_treetype env w t ty = (tt, w1)"
  shows "tiles w1 = tiles w \<and> tree_limit w1 = tree_limit w \<and> ext w1 = ext w \<and>
         interactive_random_state w1 = interactive_random_state w"
  using assms
  by (auto simp: choose_treetype_def split: if_splits prod.splits
      dest!: draw_Random_frame GetRandomTreeType_frame)

lemma PlantTreesOnTile_frame:
  assumes "PlantTreesOnTile env w t ty c g = Some w1"
  shows "tree_limit w1 = tree_limit w \<and> random_state w1 = random_state w \<and>
         interactive_random_state w1 = interactive_random_state w \<and>
         (\<forall>u. u \<noteq> t \<longrightarrow> tiles w1 u = tiles w u)"
  using assms
  by (auto simp: PlantTreesOnTile_def tile_update_defs Let_def split: if_splits TileType.splits)

lemma clear_fields_or_rocks_frame:
  "clear_fields_or_rocks env flags t w cst = Inl (ret, w1) \<or>
   clear_fields_or_rocks env flags t w cst = Inr (c1, w1) \<Longrightarrow>
   tree_limit w1 = tree_limit w \<and> random_state w1 = random_state w \<and>
         interactive_random_state w1 = interactive_random_state w \<and>
         (\<forall>u. u \<noteq> t \<longrightarrow> tiles w1 u = tiles w u)"
  by (auto simp: clear_fields_or_rocks_def tile_update_defs split: if_splits prod.splits)

lemma plant_loop_inv:
  assumes "I w limit cst msg"
    and "\<And>tile w l c m w' l' c' mo. I w l c m \<Longrightarrow>
           plant_tile env flags ttp tile w l c = Step_next w' l' c' mo \<or>
           plant_tile env flags ttp tile w l c = Step_stop w' l' c' mo \<Longrightarrow>
           I w' l' c' (assign_msg mo m)"
    and "\<And>tile w l c m ret w'. I w l c m \<Longrightarrow>
           plant_tile env flags ttp tile w l c = Step_return ret w' \<Longrightarrow> R ret w'"
  shows "(case plant_loop env flags ttp ts w limit cst msg of
            Loop_done w' l' c' m' \<Rightarrow> I w' l' c' m'
          | Loop_return ret w' \<Rightarrow> R ret w'
          | Loop_abort \<Rightarrow> True)"
  using assms(1)
proof (induction ts arbitrary: w limit cst msg)
  case Nil
  then show ?case by simp
next
  case (Cons tile ts)
  show ?case
  proof (cases "plant_tile env flags ttp tile w limit cst")
    case (Step_next w1 l1 c1 mo)
    with Cons.prems assms(2) have "I w1 l1 c1 (assign_msg mo msg)" by blast
    from Cons.IH[OF this] Step_next show ?thesis by simp
  next
    case (Step_stop w1 l1 c1 mo)
    with Cons.prems assms(2) have "I w1 l1 c1 (assign_msg mo msg)" by blast
    with Step_stop show ?thesis by simp
  next
    case (Step_return ret w1)
    with Cons.prems assms(3) have "R ret w1" by blast
    with Step_return show ?thesis by simp
  next
    case Step_abort
    then show ?thesis by simp
  qed
qed

lemma loop_end_cases:
  "loop_end w l c mo = Step_next w' l' c' mo' \<or> loop_end w l c mo = Step_stop w' l' c' mo'
   \<Longrightarrow> w' = w \<and> l' = l \<and> c' = c \<and> mo' = mo"
  by (auto simp: loop_end_def split: if_splits)

lemma dec_tree_limit_frame:
  "tiles (dec_tree_limit env w) = tiles w"
  "ext (dec_tree_limit env w) = ext w"
  "random_state (dec_tree_limit env w) = random_state w"
  "interactive_random_state (dec_tree_limit env w) = interactive_random_state w"
  by (simp_all add: dec_tree_limit_def)

lemma plant_trees_rest_quota:
  assumes "plant_trees_rest env flags tile w limit cst g = Step_next w' l' c' mo \<or>
           plant_trees_rest env flags tile w limit cst g = Step_stop w' l' c' mo"
  shows "l' = limit - 1 \<and>
         (tree_limit w' = tree_limit w \<and> (DC_EXEC \<in> flags \<and> company_ptr env \<longrightarrow> mo \<noteq> None) \<or>
          DC_EXEC \<in> flags \<and> company_ptr env \<and> 1 \<le> l' \<and> l' = limit - 1 \<and> mo = None \<and>
          tree_limit w' = tree_limit w - 65536)"
  using assms
  by (auto simp: plant_trees_rest_def Let_def dec_tree_limit_def tile_update_defs
      split: if_splits dest!: loop_end_cases)

lemma plant_case_trees_quota:
  assumes "plant_case_trees env flags tile w limit cst = Step_next w' l' c' mo \<or>
           plant_case_trees env flags tile w limit cst = Step_stop w' l' c' mo"
  shows "l' \<le> limit \<and> limit - 1 \<le> l' \<and>
         (tree_limit w' = tree_limit w \<and> (DC_EXEC \<in> flags \<and> company_ptr env \<longrightarrow> mo \<noteq> None) \<or>
          DC_EXEC \<in> flags \<and> company_ptr env \<and> 1 \<le> l' \<and> l' = limit - 1 \<and> mo = None \<and>
          tree_limit w' = tree_limit w - 65536)"
  using assms
  by (auto simp: plant_case_trees_def split: if_splits prod.splits
      dest!: no_more_space_frame plant_trees_rest_quota)

lemma plant_case_clear_quota:
  assumes "plant_case_clear env flags ttp tile w limit cst = Step_next w' l' c' mo \<or>
           plant_case_clear env flags ttp tile w limit cst = Step_stop w' l' c' mo"
  shows "l' \<le> limit \<and> limit - 1 \<le> l' \<and>
         (tree_limit w' = tree_limit w \<and> (DC_EXEC \<in> flags \<and> company_ptr env \<longrightarrow> mo \<noteq> None) \<or>
          DC_EXEC \<in> flags \<and> company_ptr env \<and> 1 \<le> l' \<and> l' = limit - 1 \<and> mo = None \<and>
          tree_limit w' = tree_limit w - 65536)"
  using assms
  apply (simp add: plant_case_clear_def rate_town_for_tree_def plant_new_tree_def Let_def split: if_splits sum.splits prod.splits option.splits)
  apply (auto simp: dec_tree_limit_def tile_update_defs split: if_splits
      dest!: loop_end_cases clear_fields_or_rocks_frame[OF disjI2] choose_treetype_frame PlantTreesOnTile_frame)
  done

lemma plant_tile_quota:
  assumes "plant_tile env flags ttp tile w limit cst = Step_next w' l' c' mo \<or>
           plant_tile env flags ttp tile w limit cst = Step_stop w' l' c' mo"
  shows "l' \<le> limit \<and> limit - 1 \<le> l' \<and>
         (tree_limit w' = tree_limit w \<and> (DC_EXEC \<in> flags \<and> company_ptr env \<longrightarrow> mo \<noteq> None) \<or>
          DC_EXEC \<in> flags \<and> company_ptr env \<and> 1 \<le> l' \<and> l' = limit - 1 \<and> mo = None \<and>
          tree_limit w' = tree_limit w - 65536)"
proof (cases "GetTileType w tile")
  case MP_TREES
  with assms have "plant_case_trees env flags tile w limit cst = Step_next w' l' c' mo \<or>
           plant_case_trees env flags tile w limit cst = Step_stop w' l' c' mo"
    by (simp add: plant_tile_def)
  then show ?thesis by (rule plant_case_trees_quota)
next
  case MP_CLEAR
  with assms have "plant_case_clear env flags ttp tile w limit cst = Step_next w' l' c' mo \<or>
           plant_case_clear env flags ttp tile w limit cst = Step_stop w' l' c' mo"
    by (simp add: plant_tile_def)
  then show ?thesis by (rule plant_case_clear_quota)
next
  case MP_WATER
  with assms have "(w' = w \<and> l' = limit \<and> mo \<noteq> None) \<or> 
           plant_case_clear env flags ttp tile w limit cst = Step_next w' l' c' mo \<or>
           plant_case_clear env flags ttp tile w limit cst = Step_stop w' l' c' mo"
    by (auto simp: plant_tile_def split: if_splits)
  then show ?thesis using plant_case_clear_quota[of env flags ttp tile w limit cst w' l' c' mo] by auto
qed (use assms in \<open>auto simp: plant_tile_def dest!: loop_end_cases\<close>)

lemma plant_case_clear_return:
  assumes "plant_case_clear env flags ttp tile w limit cst = Step_return ret w'"
  shows "tree_limit w' = tree_limit w \<and> random_state w' = random_state w \<and>
         interactive_random_state w' = interactive_random_state w \<and>
         (\<forall>u. u \<noteq> tile \<longrightarrow> tiles w' u = tiles w u) \<and> Failed ret \<and> 
         1 < limit \<and>
         IsTileType w tile MP_CLEAR \<and>
         (GetRawClearGround w tile = CLEAR_FIELDS \<or> GetRawClearGround w tile = CLEAR_ROCKS) \<and>
         DoCommand_LANDSCAPE_CLEAR env flags tile (tiles w tile) (ext w) = (ret, tiles w' tile, ext w')"
  using assms
  apply (simp add: plant_case_clear_def rate_town_for_tree_def plant_new_tree_def Let_def split: if_splits sum.splits prod.splits option.splits)
   apply (auto simp: clear_fields_or_rocks_def tile_update_defs loop_end_def split: if_splits prod.splits)
  done

lemma plant_tile_return:
  assumes "plant_tile env flags ttp tile w limit cst = Step_return ret w'"
  shows "tree_limit w' = tree_limit w \<and> random_state w' = random_state w \<and>
         interactive_random_state w' = interactive_random_state w \<and>
         (\<forall>u. u \<noteq> tile \<longrightarrow> tiles w' u = tiles w u) \<and> Failed ret \<and> 
         1 < limit \<and>
         IsTileType w tile MP_CLEAR \<and>
         (GetRawClearGround w tile = CLEAR_FIELDS \<or> GetRawClearGround w tile = CLEAR_ROCKS) \<and>
         DoCommand_LANDSCAPE_CLEAR env flags tile (tiles w tile) (ext w) = (ret, tiles w' tile, ext w')"
proof (cases "GetTileType w tile")
  case MP_TREES
  with assms show ?thesis
    by (auto simp: plant_tile_def plant_case_trees_def plant_trees_rest_def loop_end_def Let_def
        split: if_splits prod.splits)
next
  case MP_CLEAR
  with assms have "plant_case_clear env flags ttp tile w limit cst = Step_return ret w'"
    by (simp add: plant_tile_def)
  then show ?thesis by (rule plant_case_clear_return)
next
  case MP_WATER
  with assms have "plant_case_clear env flags ttp tile w limit cst = Step_return ret w'"
    by (auto simp: plant_tile_def split: if_splits)
  then show ?thesis by (rule plant_case_clear_return)
qed (use assms in \<open>auto simp: plant_tile_def loop_end_def split: if_splits\<close>)

lemma GB_16_16: "GB y 16 16 = unat y div 65536"
proof -
  have "unat y < 2 ^ 32" using unsigned_less[of y, where ?'a=nat] by simp
  then have "unat y div 65536 < 65536" by simp
  then show ?thesis
    by (simp add: GB_def unat_drop_bit_eq take_bit_eq_mod drop_bit_eq_div unat_div unat_mod_distrib)
qed

lemma GB_tree_limit_dec:
  assumes "1 \<le> GB x 16 16"
  shows "GB (x - 65536) 16 16 = GB x 16 16 - 1"
proof -
  from assms have a: "65536 \<le> unat x" by (simp add: GB_16_16)
  then have "(65536 :: 32 word) \<le> x" by (simp add: word_le_nat_alt)
  then have "unat (x - 65536) = unat x - 65536" by (simp add: unat_sub)
  with a show ?thesis by (simp add: GB_16_16) 
qed

lemma plant_case_clear_low_limit:
  assumes "limit \<le> 1"
  shows "\<exists>w' l' m. (plant_case_clear env flags ttp tile w limit cst = Step_next w' l' cst (Some m) \<or>
                    plant_case_clear env flags ttp tile w limit cst = Step_stop w' l' cst (Some m)) \<and>
           w' = w \<and> l' \<le> limit"
  using assms by (auto simp: plant_case_clear_def rate_town_for_tree_def plant_new_tree_def loop_end_def)

lemma plant_tile_low_limit:
  assumes "limit \<le> 1"
  shows "\<exists>w' l' m. (plant_tile env flags ttp tile w limit cst = Step_next w' l' cst (Some m) \<or>
                    plant_tile env flags ttp tile w limit cst = Step_stop w' l' cst (Some m)) \<and>
           tiles w' = tiles w \<and> tree_limit w' = tree_limit w \<and> ext w' = ext w \<and>
           random_state w' = random_state w \<and> l' \<le> limit"
proof (cases "GetTileType w tile")
  case MP_TREES
  with assms show ?thesis
    by (auto simp: plant_tile_def plant_case_trees_def plant_trees_rest_def loop_end_def
        split: prod.splits dest!: no_more_space_frame)
next
  case MP_CLEAR
  with plant_case_clear_low_limit[OF assms, of env flags ttp tile w cst] show ?thesis
    by (auto simp: plant_tile_def)
next
  case MP_WATER
  with plant_case_clear_low_limit[OF assms, of env flags ttp tile w cst] show ?thesis
    by (auto simp: plant_tile_def)
qed (use assms in \<open>auto simp: plant_tile_def loop_end_def\<close>)

lemma plant_tile_test_no_abort:
  assumes "DC_EXEC \<notin> flags"
  shows "plant_tile env flags ttp tile w limit cst \<noteq> Step_abort"
proof (cases "GetTileType w tile")
  case MP_TREES
  then show ?thesis
    by (auto simp: plant_tile_def plant_case_trees_def plant_trees_rest_def loop_end_def Let_def
        split: prod.splits)
next
  case MP_CLEAR
  with assms show ?thesis
    by (auto simp: plant_tile_def plant_case_clear_def rate_town_for_tree_def plant_new_tree_def loop_end_def Let_def
        split: prod.splits sum.splits)
next
  case MP_WATER
  with assms show ?thesis
    by (auto simp: plant_tile_def plant_case_clear_def rate_town_for_tree_def plant_new_tree_def loop_end_def Let_def
        split: prod.splits sum.splits)
qed (auto simp: plant_tile_def loop_end_def)

lemma plant_loop_test_no_abort:
  assumes "DC_EXEC \<notin> flags"
  shows "plant_loop env flags ttp ts w limit cst msg \<noteq> Loop_abort"
proof (induction ts arbitrary: w limit cst msg)
  case Nil
  show ?case by simp
next
  case (Cons tile ts)
  show ?case
    using plant_tile_test_no_abort[OF assms, of env ttp tile w limit cst] Cons.IH
    by (cases "plant_tile env flags ttp tile w limit cst") auto
qed

lemma CmdPlantTree_test_returns:
  assumes "DC_EXEC \<notin> flags"
  shows "\<exists>r w'. CmdPlantTree env tile flags p1 p2 w = Some (r, w')"
proof (cases "plant_loop env flags (GB p1 0 8) (TileArea env tile (unat p2)) w
          (if company_ptr env then int (GB (tree_limit w) 16 16) else INT32_MAX)
          (CommandCost_of EXPENSES_OTHER) INVALID_STRING_ID")
  case (Loop_done w1 l c m)
  then show ?thesis by (simp add: CmdPlantTree_def Let_def)
next
  case (Loop_return r w1)
  then show ?thesis by (simp add: CmdPlantTree_def Let_def)
next
  case Loop_abort
  with plant_loop_test_no_abort[OF assms] show ?thesis by blast
qed

lemma plant_loop_quota:
  assumes "limit \<le> int (GB (tree_limit w) 16 16)" and "1 \<le> GB (tree_limit w) 16 16"
      and "GB (tree_limit w) 16 16 \<le> Q"
      and "company_ptr env"
  shows "(case plant_loop env flags ttp ts w limit cst msg of
            Loop_done w' l' c' m' \<Rightarrow>
              1 \<le> GB (tree_limit w') 16 16 \<and> GB (tree_limit w') 16 16 \<le> Q
          | Loop_return ret w' \<Rightarrow>
              1 \<le> GB (tree_limit w') 16 16 \<and> GB (tree_limit w') 16 16 \<le> Q
          | Loop_abort \<Rightarrow> True)"
  using assms(1-3)
proof (induction ts arbitrary: w limit cst msg)
  case Nil
  then show ?case by simp
next
  case (Cons tile ts)
  show ?case
  proof (cases "plant_tile env flags ttp tile w limit cst")
    case (Step_next w1 l1 c1 mo)
    from plant_tile_quota[OF disjI1[OF Step_next]] Cons.prems GB_tree_limit_dec[of "tree_limit w"]
    have "l1 \<le> int (GB (tree_limit w1) 16 16) \<and> 1 \<le> GB (tree_limit w1) 16 16 \<and>
          GB (tree_limit w1) 16 16 \<le> Q"
      by auto
    then show ?thesis using Cons.IH[of l1 w1 c1 "assign_msg mo msg"] Step_next by simp
  next
    case (Step_stop w1 l1 c1 mo)
    from plant_tile_quota[OF disjI2[OF Step_stop]] Cons.prems GB_tree_limit_dec[of "tree_limit w"]
    have "1 \<le> GB (tree_limit w1) 16 16 \<and> GB (tree_limit w1) 16 16 \<le> Q"
      by auto
    then show ?thesis using Step_stop by simp
  next
    case (Step_return ret w1)
    from plant_tile_return[OF Step_return] Cons.prems Step_return show ?thesis by simp
  next
    case Step_abort
    then show ?thesis by simp
  qed
qed

lemma plant_loop_low_limit:
  assumes "limit \<le> 1" and "cost cst = 0"
  shows "\<exists>w' l' c' m'. plant_loop env flags ttp ts w limit cst msg = Loop_done w' l' c' m' \<and>
           tiles w' = tiles w \<and> tree_limit w' = tree_limit w \<and> cost c' = 0"
  using assms
proof (induction ts arbitrary: w limit msg)
  case Nil
  then show ?case by simp
next
  case (Cons tile ts)
  from plant_tile_low_limit[OF Cons.prems(1), of env flags ttp tile w cst]
  obtain w1 l1 m where s: "plant_tile env flags ttp tile w limit cst = Step_next w1 l1 cst (Some m) \<or>
                    plant_tile env flags ttp tile w limit cst = Step_stop w1 l1 cst (Some m)"
    and f: "tiles w1 = tiles w" "tree_limit w1 = tree_limit w" "l1 \<le> limit" by blast
  from s show ?case
  proof
    assume n: "plant_tile env flags ttp tile w limit cst = Step_next w1 l1 cst (Some m)"
    from f Cons.prems have "l1 \<le> 1" by simp
    from Cons.IH[OF this Cons.prems(2), of w1 "assign_msg (Some m) msg"] n f show ?thesis by auto
  next
    assume "plant_tile env flags ttp tile w limit cst = Step_stop w1 l1 cst (Some m)"
    with f Cons.prems show ?thesis by auto
  qed
qed

lemma TileArea_single: "TileArea sample_env 0 0 = [0]"
  by (simp add: TileArea_def TileX_def TileY_def TileXY_def sample_env_sel)

lemma sample_company_ptr: "company_ptr sample_env"
  by (simp add: company_ptr_def sample_env_sel)

lemma sample_quota: "q < 65536 \<Longrightarrow> GB (tree_limit (sample_world ts q)) 16 16 = q"
proof -
  assume q: "q < 65536"
  then have a: "q mod 4294967296 = q" and b: "q * 65536 mod 4294967296 = q * 65536" by simp_all
  have "unat (word_of_nat q * 65536 :: 32 word) = q * 65536"
    by (simp add: unat_word_ariths unat_of_nat a b)
  then show ?thesis by (simp add: GB_16_16 sample_world_def)
qed

lemma eval_limit1:
  "CmdPlantTree sample_env 0 {DC_EXEC} 5 0 (sample_world (\<lambda>t. grass_tile) 1)
     = Some (return_cmd_error STR_ERROR_TREE_PLANT_LIMIT_REACHED, sample_world (\<lambda>t. grass_tile) 1)"
  by (simp add: CmdPlantTree_def Let_def TileArea_single sample_company_ptr sample_quota MapSize_def
      IsInsideBS_def sample_tree_base_def sample_tree_count_def
      plant_tile_def plant_case_clear_def rate_town_for_tree_def plant_new_tree_def CanPlantTreesOnTile_def wrong_terrain_def
      loop_end_def assign_msg_def GetCost_def CommandCost_of_def
      sample_env_sel grass_tile_def sample_world_def GB_def take_bit_eq_mod drop_bit_eq_div)

lemma plant_loop_test_quota:
  assumes "DC_EXEC \<notin> flags"
  shows "(case plant_loop env flags ttp ts w limit cst msg of
            Loop_done w' l' c' m' \<Rightarrow> tree_limit w' = tree_limit w
          | Loop_return ret w' \<Rightarrow> tree_limit w' = tree_limit w
          | Loop_abort \<Rightarrow> False)"
proof (induction ts arbitrary: w limit cst msg)
  case Nil
  then show ?case by simp
next
  case (Cons tile ts)
  show ?case
  proof (cases "plant_tile env flags ttp tile w limit cst")
    case (Step_next w1 l1 c1 mo)
    from plant_tile_quota[OF disjI1[OF Step_next]] assms
    have "tree_limit w1 = tree_limit w" by auto
    then show ?thesis using Cons.IH[where w=w1 and limit=l1 and cst=c1 and msg="assign_msg mo msg"] Step_next
      by (simp split: loop_result.splits)
  next
    case (Step_stop w1 l1 c1 mo)
    from plant_tile_quota[OF disjI2[OF Step_stop]] assms
    have "tree_limit w1 = tree_limit w" by auto
    then show ?thesis using Step_stop by simp
  next
    case (Step_return ret w1)
    from plant_tile_return[OF Step_return] Step_return show ?thesis by simp
  next
    case Step_abort
    with plant_tile_test_no_abort[OF assms] show ?thesis by blast
  qed
qed

lemma CmdPlantTree_test_quota:
  assumes "DC_EXEC \<notin> flags"
  shows "\<exists>r w'. CmdPlantTree env tile flags p1 p2 w = Some (r, w') \<and> tree_limit w' = tree_limit w"
proof (cases "plant_loop env flags (GB p1 0 8) (TileArea env tile (unat p2)) w
          (if company_ptr env then int (GB (tree_limit w) 16 16) else INT32_MAX)
          (CommandCost_of EXPENSES_OTHER) INVALID_STRING_ID")
  case (Loop_done w1 l c m)
  with plant_loop_test_quota[OF assms, where env=env and ttp="GB p1 0 8"
          and ts="TileArea env tile (unat p2)" and w=w
          and limit="(if company_ptr env then int (GB (tree_limit w) 16 16) else INT32_MAX)"
          and cst="CommandCost_of EXPENSES_OTHER" and msg=INVALID_STRING_ID]
  show ?thesis by (simp add: CmdPlantTree_def Let_def)
next
  case (Loop_return r w1)
  with plant_loop_test_quota[OF assms, where env=env and ttp="GB p1 0 8"
          and ts="TileArea env tile (unat p2)" and w=w
          and limit="(if company_ptr env then int (GB (tree_limit w) 16 16) else INT32_MAX)"
          and cst="CommandCost_of EXPENSES_OTHER" and msg=INVALID_STRING_ID]
  show ?thesis by (simp add: CmdPlantTree_def Let_def)
next
  case Loop_abort
  with plant_loop_test_no_abort[OF assms] show ?thesis by blast
qed

lemma repeat_test_quota:
  assumes "DC_EXEC \<notin> flags"
  shows "\<exists>w'. repeat_CmdPlantTree env tile flags p1 p2 n w = Some w' \<and> tree_limit w' = tree_limit w"
proof (induction n arbitrary: w)
  case 0
  then show ?case by simp
next
  case (Suc n)
  from CmdPlantTree_test_quota[OF assms, where env=env and tile=tile and ?p1.0=p1 and ?p2.0=p2 and w=w]
  obtain r w1 where c: "CmdPlantTree env tile flags p1 p2 w = Some (r, w1)"
    and t: "tree_limit w1 = tree_limit w" by blast
  from Suc.IH[where w=w1] c t show ?case by simp
qed





definition perfect_env :: "(nat, nat) env" where
  "perfect_env = sample_env\<lparr>tree_placer := TP_PERFECT\<rparr>"

lemmas eval_defs =
  CmdPlantTree_def Let_def MapSize_def IsInsideBS_def IsInsideMM_def
  sample_tree_base_def sample_tree_count_def
  plant_tile_def plant_case_clear_def rate_town_for_tree_def plant_new_tree_def plant_case_trees_def plant_trees_rest_def no_more_space_def
  CanPlantTreesOnTile_def wrong_terrain_def clear_fields_or_rocks_def choose_treetype_def
  PlantTreesOnTile_def dec_tree_limit_def company_ptr_def
  loop_end_def assign_msg_def GetCost_def CommandCost_of_def AddCostMoney_def AddCost_def
  MaxTreeCount_def GetSparseTreeRange_def round_up_divide_def
  set_tile_def SetTreeGrowth_def AddTreeGrowth_def AddTreeCount_def SetTreeGroundDensity_def
  SetTropicZone_def MakeTree_def
  sample_env_sel grass_tile_def trees_tile_def house_tile_def snowy_fields_tile_def
  sample_town_rating_def sample_clear_def sample_flooding_def
  GB_def take_bit_eq_mod drop_bit_eq_div

lemma TileArea_sample_row:
  "TileArea sample_env 0 1 = [0, 1]"
  "TileArea sample_env 0 2 = [0, 1, 2]"
  "TileArea perfect_env 0 0 = [0]"
  by (simp_all add: TileArea_def TileX_def TileY_def TileXY_def sample_env_sel perfect_env_def upt_rec)

text \<open>
  The failure reasons the tile loop assigns to \<open>msg\<close>, in the order of the iteration, from
  a given loop state on.
\<close>

definition reason_list :: "StringID option \<Rightarrow> StringID list" where
  "reason_list mo = (case mo of None \<Rightarrow> [] | Some m \<Rightarrow> [m])"

fun failure_reasons ::
  "('r, 'x) env \<Rightarrow> DoCommandFlag set \<Rightarrow> TreeType \<Rightarrow> TileIndex list \<Rightarrow> ('r, 'x) world \<Rightarrow> int
     \<Rightarrow> CommandCost \<Rightarrow> StringID list" where
  "failure_reasons env flags tree_to_plant [] w limit cst = []"
| "failure_reasons env flags tree_to_plant (tile # rest) w limit cst =
     (case plant_tile env flags tree_to_plant tile w limit cst of
        Step_next w1 l1 c1 mo \<Rightarrow> reason_list mo @ failure_reasons env flags tree_to_plant rest w1 l1 c1
      | Step_stop w1 l1 c1 mo \<Rightarrow> reason_list mo
      | Step_return ret w1 \<Rightarrow> []
      | Step_abort \<Rightarrow> [])"

text \<open>The tile loop as CmdPlantTree starts it, once the parameter checks have passed.\<close>

definition plant_area ::
  "('r, 'x) env \<Rightarrow> TileIndex \<Rightarrow> DoCommandFlag set \<Rightarrow> 32 word \<Rightarrow> 32 word \<Rightarrow> ('r, 'x) world
     \<Rightarrow> ('r, 'x) world loop_result" where
  "plant_area env tile flags p1 p2 w =
     plant_loop env flags (GB p1 0 8) (TileArea env tile (unat p2)) w
       (if company_ptr env then int (GB (tree_limit w) 16 16) else INT32_MAX)
       (CommandCost_of EXPENSES_OTHER) INVALID_STRING_ID"

definition area_failure_reasons ::
  "('r, 'x) env \<Rightarrow> TileIndex \<Rightarrow> DoCommandFlag set \<Rightarrow> 32 word \<Rightarrow> 32 word \<Rightarrow> ('r, 'x) world
     \<Rightarrow> StringID list" where
  "area_failure_reasons env tile flags p1 p2 w =
     failure_reasons env flags (GB p1 0 8) (TileArea env tile (unat p2)) w
       (if company_ptr env then int (GB (tree_limit w) 16 16) else INT32_MAX)
       (CommandCost_of EXPENSES_OTHER)"

definition params_ok :: "('r, 'x) env \<Rightarrow> 32 word \<Rightarrow> 32 word \<Rightarrow> bool" where
  "params_ok env p1 p2 =
     (unat p2 < MapSize env \<and>
      (GB p1 0 8 = TREE_INVALID env \<or>
       IsInsideBS (GB p1 0 8) (tree_base_by_landscape env (landscape env))
         (tree_count_by_landscape env (landscape env))))"

lemma plant_loop_last_reason:
  assumes "plant_loop env flags ttp ts w limit cst msg = Loop_done w' l' c' m'"
  shows "m' = last (msg # failure_reasons env flags ttp ts w limit cst)"
  using assms
proof (induction ts arbitrary: w limit cst msg)
  case Nil
  then show ?case by simp
next
  case (Cons tile ts)
  show ?case
  proof (cases "plant_tile env flags ttp tile w limit cst")
    case (Step_next w1 l1 c1 mo)
    with Cons.prems have "plant_loop env flags ttp ts w1 l1 c1 (assign_msg mo msg) = Loop_done w' l' c' m'"
      by simp
    from Cons.IH[OF this] Step_next show ?thesis
      by (cases mo) (simp_all add: assign_msg_def reason_list_def)
  next
    case (Step_stop w1 l1 c1 mo)
    with Cons.prems show ?thesis by (cases mo) (auto simp: assign_msg_def reason_list_def)
  next
    case (Step_return ret w1)
    with Cons.prems show ?thesis by simp
  next
    case Step_abort
    with Cons.prems show ?thesis by simp
  qed
qed

lemma CmdPlantTree_plant_area:
  "CmdPlantTree env tile flags p1 p2 w =
     (if \<not> params_ok env p1 p2 then Some (CMD_ERROR, w)
      else (case plant_area env tile flags p1 p2 w of
              Loop_done w1 l c msg \<Rightarrow> Some (if GetCost c = 0 then return_cmd_error msg else c, w1)
            | Loop_return ret w1 \<Rightarrow> Some (ret, w1)
            | Loop_abort \<Rightarrow> None))"
  by (auto simp: CmdPlantTree_def plant_area_def params_ok_def Let_def)

text \<open>A world with the interactive random stream replaced.\<close>

definition with_interactive :: "'r \<Rightarrow> ('r, 'x) world \<Rightarrow> ('r, 'x) world" where
  "with_interactive s w = w\<lparr>interactive_random_state := s\<rparr>"

lemma wi_sel [simp]:
  "tiles (with_interactive s w) = tiles w"
  "tree_limit (with_interactive s w) = tree_limit w"
  "random_state (with_interactive s w) = random_state w"
  "ext (with_interactive s w) = ext w"
  "previous_trees_around_snow_line_range (with_interactive s w) = previous_trees_around_snow_line_range w"
  "arctic_tree_occurance (with_interactive s w) = arctic_tree_occurance w"
  by (simp_all add: with_interactive_def)

lemma wi_upd:
  "with_interactive s (w\<lparr>tiles := a\<rparr>) = (with_interactive s w)\<lparr>tiles := a\<rparr>"
  "with_interactive s (w\<lparr>tree_limit := b\<rparr>) = (with_interactive s w)\<lparr>tree_limit := b\<rparr>"
  "with_interactive s (w\<lparr>random_state := c\<rparr>) = (with_interactive s w)\<lparr>random_state := c\<rparr>"
  "with_interactive s (w\<lparr>ext := d\<rparr>) = (with_interactive s w)\<lparr>ext := d\<rparr>"
  "with_interactive s (w\<lparr>previous_trees_around_snow_line_range := e\<rparr>)
     = (with_interactive s w)\<lparr>previous_trees_around_snow_line_range := e\<rparr>"
  "with_interactive s (w\<lparr>arctic_tree_occurance := f\<rparr>)
     = (with_interactive s w)\<lparr>arctic_tree_occurance := f\<rparr>"
  by (simp_all add: with_interactive_def)

lemma wi_Recalculate:
  "RecalculateArcticTreeOccuranceArray env (with_interactive s w)
     = with_interactive s (RecalculateArcticTreeOccuranceArray env w)"
  by (simp add: RecalculateArcticTreeOccuranceArray_def Let_def wi_upd)

lemma wi_MaxTreeCount:
  "MaxTreeCount env (with_interactive s w) t
     = map_prod id (with_interactive s) (MaxTreeCount env w t)"
  by (simp add: MaxTreeCount_def Let_def wi_Recalculate)

lemma wi_no_more_space:
  "no_more_space env (with_interactive s w) t
     = map_prod id (with_interactive s) (no_more_space env w t)"
  by (simp add: no_more_space_def wi_MaxTreeCount case_prod_beta map_prod_def)

lemma wi_draw:
  "draw_Random env (with_interactive s w) = map_prod id (with_interactive s) (draw_Random env w)"
  "draw_RandomRange env n (with_interactive s w)
     = map_prod id (with_interactive s) (draw_RandomRange env n w)"
  by (simp_all add: draw_Random_def draw_RandomRange_def wi_upd case_prod_beta map_prod_def)

lemma wi_GetRandomTreeType:
  "GetRandomTreeType env (with_interactive s w) t seed
     = map_prod id (with_interactive s) (GetRandomTreeType env w t seed)"
  by (simp add: GetRandomTreeType_def Let_def wi_Recalculate wi_draw case_prod_beta map_prod_def
      split: LandscapeID.splits TropicZone.splits)

lemma wi_choose_treetype:
  "choose_treetype env (with_interactive s w) t ty
     = map_prod id (with_interactive s) (choose_treetype env w t ty)"
  by (simp add: choose_treetype_def wi_draw wi_GetRandomTreeType case_prod_beta map_prod_def)

lemma wi_tile_updates:
  "set_tile (with_interactive s w) t x = with_interactive s (set_tile w t x)"
  "SetTreeGrowth (with_interactive s w) t g = with_interactive s (SetTreeGrowth w t g)"
  "AddTreeCount (with_interactive s w) t c = with_interactive s (AddTreeCount w t c)"
  "SetTropicZone (with_interactive s w) t z = with_interactive s (SetTropicZone w t z)"
  "MakeTree (with_interactive s w) t ty cnt gr gd d = with_interactive s (MakeTree w t ty cnt gr gd d)"
  "dec_tree_limit env (with_interactive s w) = with_interactive s (dec_tree_limit env w)"
  by (simp_all add: tile_update_defs dec_tree_limit_def wi_upd)

lemma wi_CanPlant [simp]:
  "CanPlantTreesOnTile env (with_interactive s w) t b = CanPlantTreesOnTile env w t b"
  "wrong_terrain env (with_interactive s w) t ty = wrong_terrain env w t ty"
  by (simp_all add: CanPlantTreesOnTile_def wrong_terrain_def split: TileType.splits)

lemma wi_PlantTreesOnTile:
  "PlantTreesOnTile env (with_interactive s w) t ty c g
     = map_option (with_interactive s) (PlantTreesOnTile env w t ty c g)"
  by (simp add: PlantTreesOnTile_def Let_def wi_tile_updates wi_upd[symmetric]
      split: TileType.splits)

lemma wi_clear_fields_or_rocks:
  "clear_fields_or_rocks env flags t (with_interactive s w) cst
     = map_sum (map_prod id (with_interactive s)) (map_prod id (with_interactive s))
         (clear_fields_or_rocks env flags t w cst)"
  by (auto simp: clear_fields_or_rocks_def wi_tile_updates wi_upd[symmetric] case_prod_beta map_prod_def)

lemma wi_loop_end:
  "loop_end (with_interactive s w) l c mo = map_plant_step (with_interactive s) (loop_end w l c mo)"
  by (simp add: loop_end_def)

lemma wi_plant_trees_rest:
  "plant_trees_rest env flags t (with_interactive s w) l c g
     = map_plant_step (with_interactive s) (plant_trees_rest env flags t w l c g)"
  by (simp add: plant_trees_rest_def Let_def wi_loop_end wi_tile_updates)

lemma wi_plant_case_trees:
  "plant_case_trees env flags t (with_interactive s w) l c
     = map_plant_step (with_interactive s) (plant_case_trees env flags t w l c)"
  by (simp add: plant_case_trees_def wi_no_more_space wi_plant_trees_rest case_prod_beta map_prod_def)

lemma wi_rate_town:
  "rate_town_for_tree env flags t (with_interactive s w)
     = with_interactive s (rate_town_for_tree env flags t w)"
  by (simp add: rate_town_for_tree_def wi_upd)

lemma wi_plant_new_tree:
  "plant_new_tree env t ttp (with_interactive s w)
     = map_option (with_interactive s) (plant_new_tree env t ttp w)"
proof (cases "PlantTreesOnTile env (snd (choose_treetype env w t ttp)) t
                (fst (choose_treetype env w t ttp)) 0 (if game_mode_editor env then 3 else 0)")
  case None
  then show ?thesis
    by (simp add: plant_new_tree_def wi_choose_treetype wi_PlantTreesOnTile case_prod_beta map_prod_def)
next
  case (Some w4)
  then show ?thesis
    by (simp add: plant_new_tree_def wi_choose_treetype wi_PlantTreesOnTile wi_tile_updates
        case_prod_beta map_prod_def)
qed

lemma wi_plant_case_clear:
  "plant_case_clear env flags ttp t (with_interactive s w) l c
     = map_plant_step (with_interactive s) (plant_case_clear env flags ttp t w l c)"
proof (cases "clear_fields_or_rocks env flags t w c")
  case (Inl a)
  then show ?thesis
    by (cases a) (simp add: plant_case_clear_def wi_loop_end wi_clear_fields_or_rocks)
next
  case (Inr b)
  obtain c1 w1 where b: "b = (c1, w1)" by (cases b)
  show ?thesis
  proof (cases "plant_new_tree env t ttp (rate_town_for_tree env flags t w1)")
    case None
    with Inr b show ?thesis
      by (simp add: plant_case_clear_def wi_loop_end wi_clear_fields_or_rocks wi_rate_town
          wi_plant_new_tree)
  next
    case (Some w6)
    with Inr b show ?thesis
      by (simp add: plant_case_clear_def wi_loop_end wi_clear_fields_or_rocks wi_rate_town
          wi_plant_new_tree)
  qed
qed

lemma wi_plant_tile:
  "plant_tile env flags ttp t (with_interactive s w) l c
     = map_plant_step (with_interactive s) (plant_tile env flags ttp t w l c)"
  by (auto simp: plant_tile_def wi_plant_case_trees wi_plant_case_clear wi_loop_end
      split: TileType.splits)

lemma wi_plant_loop:
  "plant_loop env flags ttp ts (with_interactive s w) l c m
     = map_loop_result (with_interactive s) (plant_loop env flags ttp ts w l c m)"
proof (induction ts arbitrary: w l c m)
  case Nil
  show ?case by simp
next
  case (Cons t ts)
  show ?case
    by (cases "plant_tile env flags ttp t w l c") (simp_all add: wi_plant_tile Cons.IH)
qed

lemma wi_plant_area:
  "plant_area env tile flags p1 p2 (with_interactive s w)
     = map_loop_result (with_interactive s) (plant_area env tile flags p1 p2 w)"
  by (simp add: plant_area_def wi_plant_loop)

lemma wi_CmdPlantTree:
  "CmdPlantTree env tile flags p1 p2 (with_interactive s w)
     = map_option (map_prod id (with_interactive s)) (CmdPlantTree env tile flags p1 p2 w)"
  by (cases "plant_area env tile flags p1 p2 w")
     (simp_all add: CmdPlantTree_plant_area wi_plant_area)

text \<open>
  A command descriptor of the tree planting command and the engine run over a sequence of
  descriptors, each command on the world the previous one left; the run collects the
  Cost/Results in order.
\<close>

record CommandDescriptor =
  cd_tile :: TileIndex
  cd_flags :: "DoCommandFlag set"
  cd_p1 :: "32 word"
  cd_p2 :: "32 word"

fun run_commands ::
  "('r, 'x) env \<Rightarrow> CommandDescriptor list \<Rightarrow> ('r, 'x) world
     \<Rightarrow> (CommandCost list \<times> ('r, 'x) world) option" where
  "run_commands env [] w = Some ([], w)"
| "run_commands env (d # ds) w =
     (case CmdPlantTree env (cd_tile d) (cd_flags d) (cd_p1 d) (cd_p2 d) w of
        None \<Rightarrow> None
      | Some (r, w1) \<Rightarrow>
          (case run_commands env ds w1 of
             None \<Rightarrow> None
           | Some (rs, w2) \<Rightarrow> Some (r # rs, w2)))"

lemma wi_run_commands:
  "run_commands env ds (with_interactive s w)
     = map_option (map_prod id (with_interactive s)) (run_commands env ds w)"
proof (induction ds arbitrary: w)
  case Nil
  show ?case by simp
next
  case (Cons d ds)
  show ?case
  proof (cases "CmdPlantTree env (cd_tile d) (cd_flags d) (cd_p1 d) (cd_p2 d) w")
    case None
    then show ?thesis by (simp add: wi_CmdPlantTree)
  next
    case (Some a)
    obtain r w1 where a: "a = (r, w1)" by (cases a)
    show ?thesis
    proof (cases "run_commands env ds w1")
      case None
      with Some a show ?thesis by (simp add: wi_CmdPlantTree Cons.IH)
    next
      case (Some b)
      obtain rs w2 where b: "b = (rs, w2)" by (cases b)
      from Some b \<open>CmdPlantTree env (cd_tile d) (cd_flags d) (cd_p1 d) (cd_p2 d) w = Some a\<close> a
      show ?thesis by (simp add: wi_CmdPlantTree Cons.IH)
    qed
  qed
qed

(*AUX_END*)

section \<open>Theorems\<close>

text \<open>
  C8. In the trait table the level-land command carries \<^verbatim>\<open>CMD_NO_TEST\<close> (and so has no
  separate test run), while the plain terraform command does not carry it and is tested
  before it is executed.
\<close>

theorem level_land_no_test:
  "trait_flags (DEF_CMD_TRAIT CMD_LEVEL_LAND) = {CMD_ALL_TILES, CMD_AUTO, CMD_NO_TEST}
   \<and> trait_proc (DEF_CMD_TRAIT CMD_LEVEL_LAND) = CmdLevelLand
   \<and> CMD_NO_TEST \<in> trait_flags (DEF_CMD_TRAIT CMD_LEVEL_LAND)
   \<and> \<not> separate_test_run CMD_LEVEL_LAND
   \<and> trait_flags (DEF_CMD_TRAIT CMD_TERRAFORM_LAND) = {CMD_ALL_TILES, CMD_AUTO}
   \<and> CMD_NO_TEST \<notin> trait_flags (DEF_CMD_TRAIT CMD_TERRAFORM_LAND)
   \<and> separate_test_run CMD_TERRAFORM_LAND"
  by (simp add: separate_test_run_def)

text \<open>
  C10. Outside the editor, for a company whose remaining tree quota (the upper 16 bits of
  \<open>tree_limit\<close>) is q with q \<ge> 1, one invocation of CmdPlantTree consumes at most q - 1
  units of the quota, one unit being taken per planted tree: the limit test decrements the
  local counter before comparing it with 1. When the quota is exactly 1 nothing is planted:
  the tile store and the quota are unchanged and the command fails.
\<close>

theorem quota_off_by_one:
  assumes "company_ptr env"
      and "1 \<le> GB (tree_limit w) 16 16"
      and "CmdPlantTree env tile flags p1 p2 w = Some (r, w')"
  shows "GB (tree_limit w) 16 16 - GB (tree_limit w') 16 16 \<le> GB (tree_limit w) 16 16 - 1 \<and>
         (GB (tree_limit w) 16 16 = 1 \<longrightarrow>
            tiles w' = tiles w \<and> tree_limit w' = tree_limit w \<and> Failed r)"
proof -
  let ?ts = "TileArea env tile (unat p2)"
  let ?l = "int (GB (tree_limit w) 16 16)"
  let ?ttp = "GB p1 0 8"
  have q: "1 \<le> GB (tree_limit w') 16 16 \<and> GB (tree_limit w') 16 16 \<le> GB (tree_limit w) 16 16"
    using plant_loop_quota[OF order_refl assms(2) order_refl assms(1), of flags ?ttp ?ts "CommandCost_of EXPENSES_OTHER" INVALID_STRING_ID]
      assms(1,2,3)
    by (auto simp: CmdPlantTree_def Let_def split: if_splits loop_result.splits)
  have one: "tiles w' = tiles w \<and> tree_limit w' = tree_limit w \<and> Failed r"
    if "GB (tree_limit w) 16 16 = 1"
  proof -
    have "?l \<le> 1" using that by simp
    from plant_loop_low_limit[OF this, of "CommandCost_of EXPENSES_OTHER" env flags ?ttp ?ts w INVALID_STRING_ID]
    show ?thesis using assms(1,3) that
      by (auto simp: CmdPlantTree_def Let_def CommandCost_of_def CMD_ERROR_def return_cmd_error_def
          Failed_def GetCost_def split: if_splits)
  qed
  from q one show ?thesis by auto
qed

theorem quota_off_by_one_witness:
  "company_ptr sample_env \<and>
   1 \<le> GB (tree_limit (sample_world (\<lambda>t. grass_tile) 1)) 16 16 \<and>
   CmdPlantTree sample_env 0 {DC_EXEC} 5 0 (sample_world (\<lambda>t. grass_tile) 1)
     = Some (return_cmd_error STR_ERROR_TREE_PLANT_LIMIT_REACHED, sample_world (\<lambda>t. grass_tile) 1) \<and>
   GB (tree_limit (sample_world (\<lambda>t. grass_tile) 1)) 16 16 = 1 \<and>
   Failed (return_cmd_error STR_ERROR_TREE_PLANT_LIMIT_REACHED)"
proof -
  have q: "1 \<le> GB (tree_limit (sample_world (\<lambda>t. grass_tile) 1)) 16 16"
    by (simp add: sample_quota)
  from quota_off_by_one[OF sample_company_ptr q eval_limit1] q eval_limit1 sample_company_ptr
  show ?thesis by (simp add: sample_quota)
qed

text \<open>
  C4. A run of CmdPlantTree without \<open>DC_EXEC\<close> returns and leaves the company's tree
  quota \<open>tree_limit\<close> as it was, however many times the test is run in a row. In a run with
  \<open>DC_EXEC\<close> for a company, a round of the tile loop takes one unit (\<open>1 << 16\<close>) from the
  quota exactly when it plants, that is when it records no failure reason.
\<close>

theorem test_run_keeps_quota:
  "(DC_EXEC \<notin> flags \<longrightarrow>
      (\<exists>w'. repeat_CmdPlantTree env tile flags p1 p2 n w = Some w' \<and> tree_limit w' = tree_limit w))
   \<and>
   (DC_EXEC \<in> fe \<and> company_ptr env \<and>
      (plant_tile env fe ttp t v l c = Step_next v' l' c' mo \<or>
       plant_tile env fe ttp t v l c = Step_stop v' l' c' mo) \<longrightarrow>
      tree_limit v' = (if mo = None then tree_limit v - 65536 else tree_limit v))"
proof (intro conjI impI)
  assume "DC_EXEC \<notin> flags"
  then show "\<exists>w'. repeat_CmdPlantTree env tile flags p1 p2 n w = Some w' \<and> tree_limit w' = tree_limit w"
    by (rule repeat_test_quota)
next
  assume a: "DC_EXEC \<in> fe \<and> company_ptr env \<and>
      (plant_tile env fe ttp t v l c = Step_next v' l' c' mo \<or>
       plant_tile env fe ttp t v l c = Step_stop v' l' c' mo)"
  then have "plant_tile env fe ttp t v l c = Step_next v' l' c' mo \<or>
       plant_tile env fe ttp t v l c = Step_stop v' l' c' mo" by simp
  from plant_tile_quota[OF this] a
  show "tree_limit v' = (if mo = None then tree_limit v - 65536 else tree_limit v)"
    by auto
qed

lemma eval_exec_step:
  "plant_tile sample_env {DC_EXEC} 5 0 (sample_world (\<lambda>t. grass_tile) 5) 5 (CommandCost_of EXPENSES_OTHER)
   = Step_next
       ((sample_world ((\<lambda>t. grass_tile)(0 := grass_tile\<lparr>tile_type := MP_TREES, tree_type := 5,
            tree_count := 1, tree_growth := 0, tree_ground := TREE_GROUND_GRASS, tree_density := 3\<rparr>)) 5)
          \<lparr>tree_limit := 4 * 65536, ext := 100\<rparr>)
       4 ((CommandCost_of EXPENSES_OTHER)\<lparr>cost := 20\<rparr>) None"
  by (simp add: plant_tile_def plant_case_clear_def rate_town_for_tree_def plant_new_tree_def CanPlantTreesOnTile_def wrong_terrain_def
    clear_fields_or_rocks_def loop_end_def AddCostMoney_def CommandCost_of_def
    choose_treetype_def PlantTreesOnTile_def tile_update_defs dec_tree_limit_def company_ptr_def
    IsInsideMM_def Let_def
    sample_env_sel sample_world_def grass_tile_def sample_town_rating_def)

theorem test_run_keeps_quota_witness:
  "DC_EXEC \<notin> ({} :: DoCommandFlag set) \<and>
   (\<exists>w'. repeat_CmdPlantTree sample_env 0 {} 5 0 3 (sample_world (\<lambda>t. grass_tile) 5) = Some w' \<and>
      tree_limit w' = tree_limit (sample_world (\<lambda>t. grass_tile) 5)) \<and>
   DC_EXEC \<in> {DC_EXEC} \<and> company_ptr sample_env \<and>
   plant_tile sample_env {DC_EXEC} 5 0 (sample_world (\<lambda>t. grass_tile) 5) 5 (CommandCost_of EXPENSES_OTHER)
   = Step_next
       ((sample_world ((\<lambda>t. grass_tile)(0 := grass_tile\<lparr>tile_type := MP_TREES, tree_type := 5,
            tree_count := 1, tree_growth := 0, tree_ground := TREE_GROUND_GRASS, tree_density := 3\<rparr>)) 5)
          \<lparr>tree_limit := 4 * 65536, ext := 100\<rparr>)
       4 ((CommandCost_of EXPENSES_OTHER)\<lparr>cost := 20\<rparr>) None \<and>
   (4 * 65536 :: 32 word) = tree_limit (sample_world (\<lambda>t. grass_tile) 5) - 65536"
  using test_run_keeps_quota[where flags="{}" and env=sample_env and tile=0 and ?p1.0=5 and ?p2.0=0
      and n=3 and w="sample_world (\<lambda>t. grass_tile) 5"
      and fe="{DC_EXEC}" and ttp=5 and t=0 and v="sample_world (\<lambda>t. grass_tile) 5" and l=5
      and c="CommandCost_of EXPENSES_OTHER" and v'=
      "(sample_world ((\<lambda>t. grass_tile)(0 := grass_tile\<lparr>tile_type := MP_TREES, tree_type := 5,
            tree_count := 1, tree_growth := 0, tree_ground := TREE_GROUND_GRASS, tree_density := 3\<rparr>)) 5)
          \<lparr>tree_limit := 4 * 65536, ext := 100\<rparr>" and l'=4
      and c'="(CommandCost_of EXPENSES_OTHER)\<lparr>cost := 20\<rparr>" and mo=None]
    eval_exec_step sample_company_ptr
  by (simp add: sample_world_def)






text \<open>
  C3 (amended). When the parameter checks pass, the tile loop runs to its end and the
  accumulated cost is zero, CmdPlantTree returns a failed Cost/Result whose reason is the
  last failure reason assigned during the iteration (every later reason overwrites the
  earlier ones), or \<open>INVALID_STRING_ID\<close> when none was assigned.
\<close>

theorem failure_reports_last_reason:
  assumes "params_ok env p1 p2"
      and "plant_area env tile flags p1 p2 w = Loop_done w' l' c' m'"
      and "GetCost c' = 0"
  shows "CmdPlantTree env tile flags p1 p2 w =
           Some (return_cmd_error
                   (last (INVALID_STRING_ID # area_failure_reasons env tile flags p1 p2 w)), w')
         \<and> Failed (return_cmd_error
                   (last (INVALID_STRING_ID # area_failure_reasons env tile flags p1 p2 w)))"
proof -
  from assms(2) have "m' = last (INVALID_STRING_ID # area_failure_reasons env tile flags p1 p2 w)"
    unfolding plant_area_def area_failure_reasons_def by (rule plant_loop_last_reason)
  with assms show ?thesis
    by (simp add: CmdPlantTree_plant_area Failed_def return_cmd_error_def)
qed

definition house_then_full_trees :: "TileIndex \<Rightarrow> Tile" where
  "house_then_full_trees t = (if t = 0 then house_tile else trees_tile 4 0)"

lemma TileArea_sample_Suc: "TileArea sample_env 0 (Suc 0) = [0, 1]"
  using TileArea_sample_row(1) by simp

lemma eval_house_trees_loop:
  "plant_area sample_env 0 {} 5 1 (sample_world house_then_full_trees 5)
     = Loop_done (sample_world house_then_full_trees 5) 5 (CommandCost_of EXPENSES_OTHER)
         STR_ERROR_TREE_ALREADY_HERE"
  by (simp add: plant_area_def TileArea_sample_Suc eval_defs sample_quota sample_company_ptr
      house_then_full_trees_def sample_world_def)

lemma eval_house_trees_reasons:
  "area_failure_reasons sample_env 0 {} 5 1 (sample_world house_then_full_trees 5)
     = [STR_ERROR_SITE_UNSUITABLE, STR_ERROR_TREE_ALREADY_HERE]"
  by (simp add: area_failure_reasons_def TileArea_sample_Suc eval_defs sample_quota sample_company_ptr
      house_then_full_trees_def sample_world_def reason_list_def)

lemma sample_params_ok: "params_ok sample_env 5 0" "params_ok sample_env 5 1" "params_ok sample_env 5 2"
  by (simp_all add: params_ok_def eval_defs)

theorem failure_reports_last_reason_witness:
  "params_ok sample_env 5 1 \<and>
   plant_area sample_env 0 {} 5 1 (sample_world house_then_full_trees 5)
     = Loop_done (sample_world house_then_full_trees 5) 5 (CommandCost_of EXPENSES_OTHER)
         STR_ERROR_TREE_ALREADY_HERE \<and>
   GetCost (CommandCost_of EXPENSES_OTHER) = 0 \<and>
   CmdPlantTree sample_env 0 {} 5 1 (sample_world house_then_full_trees 5) =
     Some (return_cmd_error STR_ERROR_TREE_ALREADY_HERE, sample_world house_then_full_trees 5)"
proof -
  have c: "GetCost (CommandCost_of EXPENSES_OTHER) = 0" by (simp add: GetCost_def CommandCost_of_def)
  from failure_reports_last_reason[OF sample_params_ok(2) eval_house_trees_loop c]
    sample_params_ok(2) eval_house_trees_loop c
  show ?thesis by (simp add: eval_house_trees_reasons)
qed

theorem failure_reports_first_reason_counterexample:
  "area_failure_reasons sample_env 0 {} 5 1 (sample_world house_then_full_trees 5)
     = [STR_ERROR_SITE_UNSUITABLE, STR_ERROR_TREE_ALREADY_HERE] \<and>
   CmdPlantTree sample_env 0 {} 5 1 (sample_world house_then_full_trees 5) =
     Some (return_cmd_error STR_ERROR_TREE_ALREADY_HERE, sample_world house_then_full_trees 5) \<and>
   message (return_cmd_error STR_ERROR_TREE_ALREADY_HERE) \<noteq>
     hd (area_failure_reasons sample_env 0 {} 5 1 (sample_world house_then_full_trees 5))"
  by (simp add: eval_house_trees_reasons CmdPlantTree_plant_area sample_params_ok
      eval_house_trees_loop GetCost_def CommandCost_of_def return_cmd_error_def)

text \<open>
  C5. Two runs of the engine over the same sequence of tree planting descriptors, from
  worlds that agree on the tile store, the synchronized random state and the rest of the
  synchronized game state (quota, caches, collaborator state) and differ at most in the
  interactive random stream, either both stop at a failed assertion or produce the same
  sequence of Cost/Results and the same final tile store, quota and synchronized random
  state: the command never reads the interactive stream.
\<close>

theorem runs_agree_whatever_interactive_stream:
  "map_option (\<lambda>(rs, w'). (rs, tiles w', tree_limit w', random_state w'))
     (run_commands env ds (w\<lparr>interactive_random_state := s\<rparr>))
   = map_option (\<lambda>(rs, w'). (rs, tiles w', tree_limit w', random_state w'))
       (run_commands env ds w)"
proof -
  have "run_commands env ds (w\<lparr>interactive_random_state := s\<rparr>)
     = map_option (map_prod id (with_interactive s)) (run_commands env ds w)"
    using wi_run_commands[of env ds s w] by (simp add: with_interactive_def)
  then show ?thesis
    by (cases "run_commands env ds w") (auto simp: case_prod_beta)
qed

theorem runs_agree_whatever_interactive_stream_witness:
  "map_option (\<lambda>(rs, w'). (rs, tiles w', tree_limit w', random_state w'))
     (run_commands sample_env
        [\<lparr>cd_tile = 0, cd_flags = {DC_EXEC}, cd_p1 = 255, cd_p2 = 1\<rparr>,
         \<lparr>cd_tile = 0, cd_flags = {}, cd_p1 = 5, cd_p2 = 0\<rparr>]
        ((sample_world (\<lambda>t. grass_tile) 5)\<lparr>interactive_random_state := 77\<rparr>))
   = map_option (\<lambda>(rs, w'). (rs, tiles w', tree_limit w', random_state w'))
       (run_commands sample_env
          [\<lparr>cd_tile = 0, cd_flags = {DC_EXEC}, cd_p1 = 255, cd_p2 = 1\<rparr>,
           \<lparr>cd_tile = 0, cd_flags = {}, cd_p1 = 5, cd_p2 = 0\<rparr>]
          (sample_world (\<lambda>t. grass_tile) 5))"
  by (rule runs_agree_whatever_interactive_stream)

(*THM_END*)

end
